theory Spec2Isabelle
  imports Main "HOL-Library.Sublist" "HOL-Library.Multiset"
begin

section \<open>JavaScript values\<close>

text \<open>
  A JavaScript string is a sequence of UTF-16 code units; \<open>substring\<close> and \<open>length\<close>
  count code units. A string is therefore a list of code units, each a natural number.
  \<open>js\<close> embeds an ASCII literal.
\<close>

type_synonym jsstring = "nat list"

definition js :: "string \<Rightarrow> jsstring" where
  "js s = map of_char s"

text \<open>
  A code unit from D800 to DBFF is a high surrogate, one from DC00 to DFFF a low
  surrogate; a high surrogate followed by a low one is a pair and stands for one
  character beyond FFFF. A string is well formed when every surrogate in it is part of
  a pair.
\<close>

definition is_high :: "nat \<Rightarrow> bool" where
  "is_high c \<longleftrightarrow> 0xD800 \<le> c \<and> c \<le> 0xDBFF"

definition is_low :: "nat \<Rightarrow> bool" where
  "is_low c \<longleftrightarrow> 0xDC00 \<le> c \<and> c \<le> 0xDFFF"

fun well_formed :: "jsstring \<Rightarrow> bool" where
  "well_formed [] = True"
| "well_formed [c] = (\<not> is_high c \<and> \<not> is_low c)"
| "well_formed (c # d # cs) =
     (if is_high c then is_low d \<and> well_formed cs
      else \<not> is_low c \<and> well_formed (d # cs))"

text \<open>
  A string that goes to the store, in a document or in a query, is written as UTF-8,
  which has no encoding for a surrogate outside a pair: each such code unit is written
  as U+FFFD. \<open>bson_string\<close> is the string the store holds.
\<close>

fun bson_string :: "jsstring \<Rightarrow> jsstring" where
  "bson_string [] = []"
| "bson_string [c] = (if is_high c \<or> is_low c then [0xFFFD] else [c])"
| "bson_string (c # d # cs) =
     (if is_high c \<and> is_low d then c # d # bson_string cs
      else if is_high c \<or> is_low c then 0xFFFD # bson_string (d # cs)
      else c # bson_string (d # cs))"

text \<open>The characters (code points) of a string: a pair is one character.\<close>

fun code_points :: "jsstring \<Rightarrow> nat list" where
  "code_points [] = []"
| "code_points [c] = [c]"
| "code_points (c # d # cs) =
     (if is_high c \<and> is_low d
      then (0x10000 + (c - 0xD800) * 0x400 + (d - 0xDC00)) # code_points cs
      else c # code_points (d # cs))"

text \<open>
  The values \<open>express.json()\<close> and axios produce by parsing JSON, and \<open>undefined\<close> for
  an absent property. Numbers are the integral ones that a double holds exactly. An
  object is the association list of its own properties, one entry per key.
\<close>

datatype jsval =
    JUndefined
  | JNull
  | JBool bool
  | JNum int
  | JStr jsstring
  | JArr "jsval list"
  | JObj "(jsstring \<times> jsval) list"

datatype error = TypeError | CastError | AxiosError | MongoServerError

text \<open>\<open>Boolean(v)\<close>, the test behind \<open>!v\<close>, \<open>v || d\<close> and \<open>filter(Boolean)\<close>.\<close>

fun truthy :: "jsval \<Rightarrow> bool" where
  "truthy JUndefined = False"
| "truthy JNull = False"
| "truthy (JBool b) = b"
| "truthy (JNum n) = (n \<noteq> 0)"
| "truthy (JStr s) = (s \<noteq> [])"
| "truthy (JArr _) = True"
| "truthy (JObj _) = True"

text \<open>\<open>a || b\<close>\<close>

definition js_or :: "jsval \<Rightarrow> jsval \<Rightarrow> jsval" where
  "js_or a b = (if truthy a then a else b)"

text \<open>
  \<open>v.name\<close> for the property names the chat handler reads (\<open>candidates\<close>, \<open>content\<close>,
  \<open>parts\<close>, \<open>text\<close>), none of which a prototype defines: reading a property of
  \<open>undefined\<close> or \<open>null\<close> throws a TypeError, an object gives its own property or
  \<open>undefined\<close>, every other value gives \<open>undefined\<close>.
\<close>

fun js_prop :: "jsval \<Rightarrow> jsstring \<Rightarrow> error + jsval" where
  "js_prop JUndefined name = Inl TypeError"
| "js_prop JNull name = Inl TypeError"
| "js_prop (JObj kvs) name = Inr (case map_of kvs name of None \<Rightarrow> JUndefined | Some v \<Rightarrow> v)"
| "js_prop v name = Inr JUndefined"

text \<open>\<open>v[0]\<close>: the first element of an array, the first code unit of a string.\<close>

fun js_index0 :: "jsval \<Rightarrow> error + jsval" where
  "js_index0 JUndefined = Inl TypeError"
| "js_index0 JNull = Inl TypeError"
| "js_index0 (JObj kvs) = Inr (case map_of kvs (js ''0'') of None \<Rightarrow> JUndefined | Some v \<Rightarrow> v)"
| "js_index0 (JArr []) = Inr JUndefined"
| "js_index0 (JArr (x # xs)) = Inr x"
| "js_index0 (JStr []) = Inr JUndefined"
| "js_index0 (JStr (c # cs)) = Inr (JStr [c])"
| "js_index0 v = Inr JUndefined"

text \<open>
  \<open>v.filter(Boolean)\<close>: only an array has a \<open>filter\<close> method; on any other value the
  call throws a TypeError.
\<close>

fun js_filter_Boolean :: "jsval \<Rightarrow> error + jsval list" where
  "js_filter_Boolean (JArr xs) = Inr (filter truthy xs)"
| "js_filter_Boolean v = Inl TypeError"

text \<open>\<open>v.substring(0, n)\<close>: only a string has the method.\<close>

fun js_substring0 :: "jsval \<Rightarrow> nat \<Rightarrow> error + jsstring" where
  "js_substring0 (JStr s) n = Inr (take n s)"
| "js_substring0 v n = Inl TypeError"

text \<open>Decimal digits of a number, as \<open>String(n)\<close> prints an integer.\<close>

function string_of_nat :: "nat \<Rightarrow> jsstring" where
  "string_of_nat n =
     (if n < 10 then [48 + n] else string_of_nat (n div 10) @ [48 + n mod 10])"
  by pat_completeness auto
termination
  by (relation "measure (\<lambda>n. n)") auto

declare string_of_nat.simps [simp del]

definition string_of_int :: "int \<Rightarrow> jsstring" where
  "string_of_int i = (if i < 0 then 45 # string_of_nat (nat (- i)) else string_of_nat (nat i))"

section \<open>Schemas\<close>

type_synonym objectid = nat
type_synonym date = nat

datatype role = User | Assistant | Gemini3

record conversation =
  c_id :: objectid
  c_sessionId :: "jsstring option"
  c_userId :: "jsstring option"
  c_title :: jsstring
  c_createdAt :: date
  c_updatedAt :: date
  c_isDeleted :: bool

record message =
  m_id :: objectid
  m_sessionId :: "jsstring option"
  m_role :: role
  m_content :: "jsstring option"
  m_attachments :: "objectid list"
  m_senderAi :: "jsstring option"
  m_createdAt :: date

record attachment =
  a_id :: objectid
  a_sessionId :: "jsstring option"
  a_messageId :: "objectid option"
  a_fileName :: jsstring
  a_fileType :: jsstring
  a_fileSize :: nat
  a_filePath :: jsstring
  a_uploadedAt :: date

text \<open>
  The three collections in insertion order, the source of fresh \<open>_id\<close>s, the clock that
  \<open>Date.now\<close> reads (it never runs backwards), and the log of the prompts posted to the
  generative-AI endpoint.
\<close>

record world =
  conversations :: "conversation list"
  messages :: "message list"
  attachments :: "attachment list"
  next_id :: objectid
  clock :: date
  gateway_log :: "jsval list"

definition init :: "date \<Rightarrow> world" where
  "init t = \<lparr>conversations = [], messages = [], attachments = [], next_id = 0, clock = t,
             gateway_log = []\<rparr>"

section \<open>The libraries\<close>

text \<open>
  Three decisions are taken by code that is not the handlers' own, and are taken here
  as given: how Mongoose casts a value of an \<open>ObjectId\<close> path (\<open>None\<close>: a cast error);
  which characters the regular-expression engine of the store holds equal under option
  \<open>i\<close> (two characters with the same \<open>caseless\<close> form); and what the engine does with
  a pattern that has a metacharacter other than the dot (\<open>None\<close>: the pattern is
  refused; else the test it applies to a string).
\<close>

record library =
  castObjectId :: "jsval \<Rightarrow> objectid option"
  caseless :: "nat \<Rightarrow> nat"
  regex_beyond :: "jsstring \<Rightarrow> (jsstring \<Rightarrow> bool) option"

section \<open>Schema casts\<close>

text \<open>
  The cast of a \<open>String\<close> path: \<open>null\<close> and \<open>undefined\<close> stay, a value with an \<open>_id\<close>
  string stands for that string, a primitive is printed, an array or a plain object is
  a cast error.
\<close>

fun castString :: "jsval \<Rightarrow> error + jsstring option" where
  "castString JUndefined = Inr None"
| "castString JNull = Inr None"
| "castString (JBool b) = Inr (Some (if b then js ''true'' else js ''false''))"
| "castString (JNum n) = Inr (Some (string_of_int n))"
| "castString (JStr s) = Inr (Some s)"
| "castString (JArr xs) = Inl CastError"
| "castString (JObj kvs) =
     (case map_of kvs (js ''_id'') of
        Some (JStr s) \<Rightarrow> if s \<noteq> [] then Inr (Some s) else Inl CastError
      | _ \<Rightarrow> Inl CastError)"

text \<open>
  The cast of an array of \<open>ObjectId\<close>s: each element is cast on its own, and one cast
  error is a cast error of the array.
\<close>

fun castObjectIds :: "(jsval \<Rightarrow> objectid option) \<Rightarrow> jsval list \<Rightarrow> error + objectid list" where
  "castObjectIds cast [] = Inr []"
| "castObjectIds cast (v # vs) =
     (case cast v of
        None \<Rightarrow> Inl CastError
      | Some i \<Rightarrow> (case castObjectIds cast vs of Inl e \<Rightarrow> Inl e | Inr rest \<Rightarrow> Inr (i # rest)))"

section \<open>Store operations\<close>

text \<open>
  \<open>Message.create({sessionId, role, content, attachments, senderAi})\<close>: the document is
  cast against the schema, gets a fresh \<open>_id\<close> and \<open>createdAt = Date.now()\<close>, and is
  appended to the collection, its strings as the store holds them. A cast error rejects
  it and stores nothing. The store itself is taken to be available: an operation fails
  only by rejecting its input. The result is the stored document, of which the handler
  reads \<open>_id\<close> and \<open>createdAt\<close>.
\<close>

definition Message_create ::
  "library \<Rightarrow> jsval \<Rightarrow> role \<Rightarrow> jsval \<Rightarrow> jsval list \<Rightarrow> jsstring option \<Rightarrow> world
     \<Rightarrow> error + message \<times> world"
where
  "Message_create L sessionId r content atts senderAi w =
     (case castString sessionId of Inl e \<Rightarrow> Inl e | Inr sid \<Rightarrow>
      case castString content of Inl e \<Rightarrow> Inl e | Inr cnt \<Rightarrow>
      case castObjectIds (castObjectId L) atts of Inl e \<Rightarrow> Inl e | Inr ids \<Rightarrow>
        let m = \<lparr>m_id = next_id w, m_sessionId = map_option bson_string sid, m_role = r,
                 m_content = map_option bson_string cnt, m_attachments = ids,
                 m_senderAi = map_option bson_string senderAi, m_createdAt = clock w\<rparr>
        in Inr (m, w\<lparr>messages := messages w @ [m], next_id := Suc (next_id w)\<rparr>))"

text \<open>
  \<open>Conversation.updateOne({sessionId}, {$set: {updatedAt, title}}, {upsert: true})\<close>: the
  first conversation with that \<open>sessionId\<close> gets the two fields; when there is none, one
  is inserted with the filter's \<open>sessionId\<close>, the two fields and the schema defaults of
  the others, which Mongoose sets on the insert of an upsert. The strings of the filter
  and of the update are the ones the store holds.
\<close>

fun update_first :: "('a \<Rightarrow> bool) \<Rightarrow> ('a \<Rightarrow> 'a) \<Rightarrow> 'a list \<Rightarrow> 'a list" where
  "update_first P f [] = []"
| "update_first P f (x # xs) = (if P x then f x # xs else x # update_first P f xs)"

definition Conversation_updateOne :: "jsval \<Rightarrow> date \<Rightarrow> jsstring \<Rightarrow> world \<Rightarrow> error + world" where
  "Conversation_updateOne sessionId updatedAt title w =
     (case castString sessionId of Inl e \<Rightarrow> Inl e | Inr sid0 \<Rightarrow>
        let sid = map_option bson_string sid0 in
        if list_ex (\<lambda>c. c_sessionId c = sid) (conversations w)
        then Inr (w\<lparr>conversations :=
                update_first (\<lambda>c. c_sessionId c = sid)
                  (\<lambda>c. c\<lparr>c_updatedAt := updatedAt, c_title := bson_string title\<rparr>)
                  (conversations w)\<rparr>)
        else Inr (w\<lparr>conversations := conversations w @
                [\<lparr>c_id = next_id w, c_sessionId = sid, c_userId = None,
                  c_title = bson_string title, c_createdAt = clock w,
                  c_updatedAt = updatedAt, c_isDeleted = False\<rparr>],
                next_id := Suc (next_id w)\<rparr>))"

section \<open>The generative-AI endpoint\<close>

text \<open>
  What the endpoint does with one request is the environment's: \<open>axios_post\<close> gives the
  outcome of the POST for a prompt (a rejected promise, or the parsed response body),
  and \<open>latency\<close> the time the call takes.
\<close>

datatype axios_result = AxiosFailure | AxiosResponse jsval

record env =
  axios_post :: "jsval \<Rightarrow> axios_result"
  latency :: nat

text \<open>The placeholder literal of the chat handler: fullwidth parentheses around three CJK characters.\<close>

definition NO_REPLY :: jsstring where
  "NO_REPLY = [0xFF08, 0x65E0, 0x56DE, 0x590D, 0xFF09]"

text \<open>\<open>data.candidates[0].content.parts[0].text\<close>\<close>

definition candidate_text :: "jsval \<Rightarrow> error + jsval" where
  "candidate_text d =
     (case js_prop d (js ''candidates'') of Inl e \<Rightarrow> Inl e | Inr cs \<Rightarrow>
      case js_index0 cs of Inl e \<Rightarrow> Inl e | Inr c \<Rightarrow>
      case js_prop c (js ''content'') of Inl e \<Rightarrow> Inl e | Inr ct \<Rightarrow>
      case js_prop ct (js ''parts'') of Inl e \<Rightarrow> Inl e | Inr ps \<Rightarrow>
      case js_index0 ps of Inl e \<Rightarrow> Inl e | Inr p \<Rightarrow>
      js_prop p (js ''text''))"

section \<open>POST /api/gemini3/chat\<close>

record body =
  b_sessionId :: jsval
  b_message :: jsval
  b_attachments :: jsval

record chat_data =
  d_sessionId :: jsval
  d_messageId :: objectid
  d_role :: role
  d_content :: jsval
  d_createdAt :: date

text \<open>The JSON envelope \<open>{code, msg, data}\<close> with its HTTP status; \<open>msg\<close> is fixed by the code.\<close>

record 'a response =
  r_status :: nat
  r_code :: nat
  r_data :: "'a option"

definition success :: "'a \<Rightarrow> 'a response" where
  "success d = \<lparr>r_status = 200, r_code = 0, r_data = Some d\<rparr>"

definition failure :: "nat \<Rightarrow> 'a response" where
  "failure n = \<lparr>r_status = n, r_code = n, r_data = None\<rparr>"

text \<open>The body of the handler's \<open>try\<close>: an exception leaves the world as it is at the throw.\<close>

definition chat_try ::
  "library \<Rightarrow> env \<Rightarrow> jsval \<Rightarrow> jsval \<Rightarrow> jsval \<Rightarrow> world \<Rightarrow> (error + chat_data) \<times> world"
where
  "chat_try L e sessionId msg atts w =
     (case js_filter_Boolean atts of Inl x \<Rightarrow> (Inl x, w) | Inr ids \<Rightarrow>
      case Message_create L sessionId User msg ids None w of Inl x \<Rightarrow> (Inl x, w)
      | Inr (userMsg, w1) \<Rightarrow>
      let w2 = w1\<lparr>gateway_log := gateway_log w1 @ [msg], clock := clock w1 + latency e\<rparr> in
      case axios_post e msg of AxiosFailure \<Rightarrow> (Inl AxiosError, w2)
      | AxiosResponse d \<Rightarrow>
      case candidate_text d of Inl x \<Rightarrow> (Inl x, w2) | Inr t \<Rightarrow>
      let geminiText = js_or t (JStr NO_REPLY) in
      case Message_create L sessionId Gemini3 geminiText [] (Some (js ''gemini-1.5-pro'')) w2 of
        Inl x \<Rightarrow> (Inl x, w2)
      | Inr (geminiMsg, w3) \<Rightarrow>
      case js_substring0 msg 30 of Inl x \<Rightarrow> (Inl x, w3) | Inr title \<Rightarrow>
      case Conversation_updateOne sessionId (clock w3) title w3 of Inl x \<Rightarrow> (Inl x, w3)
      | Inr w4 \<Rightarrow>
        (Inr \<lparr>d_sessionId = sessionId, d_messageId = m_id geminiMsg, d_role = Gemini3,
              d_content = geminiText, d_createdAt = m_createdAt geminiMsg\<rparr>, w4))"

definition sendTurn :: "library \<Rightarrow> env \<Rightarrow> body \<Rightarrow> world \<Rightarrow> chat_data response \<times> world" where
  "sendTurn L e b w =
     (let sessionId = b_sessionId b;
          msg = b_message b;
          atts = (case b_attachments b of JUndefined \<Rightarrow> JArr [] | v \<Rightarrow> v)
      in if \<not> truthy sessionId \<or> \<not> truthy msg then (failure 400, w)
         else case chat_try L e sessionId msg atts w of
                (Inl x, w') \<Rightarrow> (failure 500, w')
              | (Inr d, w') \<Rightarrow> (success d, w'))"

section \<open>GET /api/conversations\<close>

text \<open>
  A JavaScript number is a double. An integer of magnitude below \<open>2^53\<close> is held
  exactly; a greater one is rounded to 53 significant bits, a tie to the even
  neighbour. (From \<open>2^1024\<close> on the double is an infinity; the integer stands for it
  here, and the store refuses the one as it refuses the other.)
\<close>

function bitlen :: "nat \<Rightarrow> nat" where
  "bitlen n = (if n = 0 then 0 else Suc (bitlen (n div 2)))"
  by pat_completeness auto
termination
  by (relation "measure (\<lambda>n. n)") auto

declare bitlen.simps [simp del]

definition to_double :: "int \<Rightarrow> int" where
  "to_double n =
     (if \<bar>n\<bar> < 2 ^ 53 then n
      else let m = nat \<bar>n\<bar>;
               e = bitlen m - 53;
               q = m div 2 ^ e;
               r = m mod 2 ^ e;
               q' = (if 2 ^ e < 2 * r \<or> (2 * r = 2 ^ e \<and> odd q) then q + 1 else q)
           in sgn n * int (q' * 2 ^ e))"

text \<open>
  \<open>parseInt(s)\<close> with no radix: leading white space is skipped, then an optional sign,
  then \<open>0x\<close> or \<open>0X\<close> selects radix 16, then the longest run of digits is read; with no
  digit the result is \<open>NaN\<close>, here \<open>None\<close>. The value is the double nearest to the
  integer read.
\<close>

definition is_whitespace :: "nat \<Rightarrow> bool" where
  "is_whitespace c \<longleftrightarrow>
     c \<in> {9, 10, 11, 12, 13, 32, 160, 0x1680, 0x2028, 0x2029, 0x202F, 0x205F, 0x3000, 0xFEFF}
     \<or> (0x2000 \<le> c \<and> c \<le> 0x200A)"

definition digit_value :: "nat \<Rightarrow> nat \<Rightarrow> nat option" where
  "digit_value R c =
     (let d = (if 48 \<le> c \<and> c \<le> 57 then Some (c - 48)
               else if 97 \<le> c \<and> c \<le> 122 then Some (c - 87)
               else if 65 \<le> c \<and> c \<le> 90 then Some (c - 55)
               else None)
      in case d of None \<Rightarrow> None | Some v \<Rightarrow> if v < R then Some v else None)"

definition parse_digits :: "nat \<Rightarrow> jsstring \<Rightarrow> nat option" where
  "parse_digits R s =
     (let ds = takeWhile (\<lambda>c. digit_value R c \<noteq> None) s
      in if ds = [] then None
         else Some (foldl (\<lambda>a c. case digit_value R c of None \<Rightarrow> a | Some d \<Rightarrow> a * R + d) 0 ds))"

definition parseInt :: "jsstring \<Rightarrow> int option" where
  "parseInt s =
     (let s1 = dropWhile is_whitespace s;
          neg = (case s1 of [] \<Rightarrow> False | c # cs \<Rightarrow> c = 45);
          s2 = (case s1 of [] \<Rightarrow> [] | c # cs \<Rightarrow> if c = 43 \<or> c = 45 then cs else s1);
          hex = (case s2 of a # b # cs \<Rightarrow> a = 48 \<and> (b = 120 \<or> b = 88) | _ \<Rightarrow> False);
          R = (if hex then 16 else 10);
          s3 = (if hex then drop 2 s2 else s2)
      in case parse_digits R s3 of
           None \<Rightarrow> None
         | Some n \<Rightarrow> Some (to_double (if neg then - int n else int n)))"

text \<open>A query parameter is a string or absent; \<open>parseInt(undefined)\<close> reads the text \<open>undefined\<close>.\<close>

definition parseInt_param :: "jsstring option \<Rightarrow> int option" where
  "parseInt_param p = (case p of None \<Rightarrow> parseInt (js ''undefined'') | Some s \<Rightarrow> parseInt s)"

text \<open>\<open>n || d\<close> on a number: \<open>NaN\<close> and \<open>0\<close> are falsy.\<close>

definition num_or :: "int option \<Rightarrow> int \<Rightarrow> int" where
  "num_or n d = (case n of None \<Rightarrow> d | Some v \<Rightarrow> if v = 0 then d else v)"

text \<open>
  The \<open>$regex\<close> operator compiles its string as a regular expression over characters
  (code points) and searches the field for a match. Two kinds of pattern item are
  modelled: a character that is no metacharacter matches the characters the engine
  holds equal to it under option \<open>i\<close>, and \<open>.\<close> matches any one character but a line
  feed. A pattern made of these is searched at every position of the field. Every
  other pattern is left to the engine (\<open>regex_beyond\<close>).
\<close>

datatype rx_item = Lit nat | AnyChar

text \<open>
  The metacharacters: the backslash (92) and \<^verbatim>\<open>^ $ . [ ] | ( ) ? * + { }\<close>; the
  character 0 is counted with them.
\<close>

definition rx_meta :: "nat \<Rightarrow> bool" where
  "rx_meta c \<longleftrightarrow> c = 0 \<or> c = 92 \<or> c \<in> set (js ''^$.[]|()?*+{}'')"

fun rx_compile :: "nat list \<Rightarrow> rx_item list option" where
  "rx_compile [] = Some []"
| "rx_compile (c # cs) =
     (if c = 46 then map_option (Cons AnyChar) (rx_compile cs)
      else if rx_meta c then None
      else map_option (Cons (Lit c)) (rx_compile cs))"

fun rx_match_here :: "(nat \<Rightarrow> nat) \<Rightarrow> rx_item list \<Rightarrow> nat list \<Rightarrow> bool" where
  "rx_match_here f [] s = True"
| "rx_match_here f (i # rest) [] = False"
| "rx_match_here f (Lit c # rest) (d # s) = (f c = f d \<and> rx_match_here f rest s)"
| "rx_match_here f (AnyChar # rest) (d # s) = (d \<noteq> 10 \<and> rx_match_here f rest s)"

fun rx_search :: "(nat \<Rightarrow> nat) \<Rightarrow> rx_item list \<Rightarrow> nat list \<Rightarrow> bool" where
  "rx_search f r [] = rx_match_here f r []"
| "rx_search f r (d # s) = (rx_match_here f r (d # s) \<or> rx_search f r s)"

text \<open>The test that a pattern with option \<open>i\<close> applies to a field; \<open>None\<close> for a refused pattern.\<close>

definition regex_i :: "library \<Rightarrow> jsstring \<Rightarrow> (jsstring \<Rightarrow> bool) option" where
  "regex_i L pattern =
     (case rx_compile (code_points pattern) of
        Some r \<Rightarrow> Some (\<lambda>field. rx_search (caseless L) r (code_points field))
      | None \<Rightarrow> regex_beyond L pattern)"

record query =
  q_page :: "jsstring option"
  q_limit :: "jsstring option"
  q_keyword :: "jsstring option"

text \<open>The filter \<open>{isDeleted: false}\<close>, with \<open>title: {$regex, $options: 'i'}\<close> when a regex is given.\<close>

definition Conversation_match :: "(jsstring \<Rightarrow> bool) option \<Rightarrow> conversation \<Rightarrow> bool" where
  "Conversation_match rx c \<longleftrightarrow>
     c_isDeleted c = False \<and> (case rx of None \<Rightarrow> True | Some test \<Rightarrow> test (c_title c))"

definition Conversation_countDocuments :: "(jsstring \<Rightarrow> bool) option \<Rightarrow> world \<Rightarrow> int" where
  "Conversation_countDocuments rx w = int (length (filter (Conversation_match rx) (conversations w)))"

text \<open>
  \<open>find(filter).sort({updatedAt: -1}).skip(n).limit(m)\<close>: the sort keeps stored order
  among equal keys. The server takes a skip and a limit from 0 to \<open>2^63 - 1\<close> and
  rejects any other. A limit of 0 is no limit; the driver sends a negative limit as its
  absolute value and asks for a single batch, which holds at most 101 documents.
\<close>

definition limit_docs :: "int \<Rightarrow> 'a list \<Rightarrow> 'a list" where
  "limit_docs m xs =
     (if m = 0 then xs
      else if m < 0 then take (min (nat (- m)) 101) xs
      else take (nat m) xs)"

definition Conversation_find ::
  "(jsstring \<Rightarrow> bool) option \<Rightarrow> int \<Rightarrow> int \<Rightarrow> world \<Rightarrow> error + conversation list"
where
  "Conversation_find rx n m w =
     (if n < 0 \<or> 2 ^ 63 \<le> n \<or> 2 ^ 63 \<le> \<bar>m\<bar> then Inl MongoServerError
      else Inr (limit_docs m (drop (nat n)
             (sort_key (\<lambda>c. - int (c_updatedAt c))
                (filter (Conversation_match rx) (conversations w))))))"

text \<open>\<open>Message.countDocuments({sessionId})\<close>\<close>

definition Message_countDocuments :: "jsstring option \<Rightarrow> world \<Rightarrow> nat" where
  "Message_countDocuments sid w =
     length (filter (\<lambda>m. m_sessionId m = map_option bson_string sid) (messages w))"

record list_item =
  li_id :: objectid
  li_sessionId :: "jsstring option"
  li_title :: jsstring
  li_updatedAt :: date
  li_messageCount :: nat

record pagination =
  p_page :: int
  p_limit :: int
  p_total :: int
  p_hasMore :: bool

record list_data =
  l_list :: "list_item list"
  l_pagination :: pagination

definition enrich :: "world \<Rightarrow> conversation \<Rightarrow> list_item" where
  "enrich w conv =
     \<lparr>li_id = c_id conv, li_sessionId = c_sessionId conv, li_title = c_title conv,
      li_updatedAt = c_updatedAt conv,
      li_messageCount = Message_countDocuments (c_sessionId conv) w\<rparr>"

text \<open>The three constants the handler reads from the query string.\<close>

definition page_of :: "query \<Rightarrow> int" where
  "page_of q = num_or (parseInt_param (q_page q)) 1"

definition limit_of :: "query \<Rightarrow> int" where
  "limit_of q = min (num_or (parseInt_param (q_limit q)) 20) 100"

definition keyword_of :: "query \<Rightarrow> jsstring" where
  "keyword_of q = (case q_keyword q of None \<Rightarrow> [] | Some k \<Rightarrow> k)"

text \<open>
  The title condition of the filter: none for an empty keyword, else the test of the
  keyword as a pattern; \<open>None\<close> when the engine refuses the pattern.
\<close>

definition title_regex :: "library \<Rightarrow> jsstring \<Rightarrow> (jsstring \<Rightarrow> bool) option option" where
  "title_regex L keyword =
     (if keyword \<noteq> [] then map_option Some (regex_i L (bson_string keyword)) else Some None)"

text \<open>
  The handler has no \<open>try\<close>: a rejected query rejects the handler (\<open>Inl\<close>) and no
  response is written. The products are products of doubles.
\<close>

definition listConversations :: "library \<Rightarrow> query \<Rightarrow> world \<Rightarrow> error + list_data response" where
  "listConversations L q w =
     (let page = page_of q; limit = limit_of q; keyword = keyword_of q
      in case title_regex L keyword of
           None \<Rightarrow> Inl MongoServerError
         | Some rx \<Rightarrow>
             let total = Conversation_countDocuments rx w
             in case Conversation_find rx (to_double (to_double (page - 1) * limit)) limit w of
                  Inl x \<Rightarrow> Inl x
                | Inr list \<Rightarrow>
                    Inr (success
                      \<lparr>l_list = map (enrich w) list,
                       l_pagination = \<lparr>p_page = page, p_limit = limit, p_total = total,
                                       p_hasMore = (to_double (page * limit) < total)\<rparr>\<rparr>))"

section \<open>GET /api/conversations/:sessionId/messages\<close>

text \<open>
  \<open>populate('attachments')\<close> replaces each id of the array by the attachment with that
  \<open>_id\<close>; an id with no such attachment is dropped from the array.
\<close>

definition populate :: "attachment list \<Rightarrow> objectid list \<Rightarrow> attachment list" where
  "populate as ids = List.map_filter (\<lambda>i. find (\<lambda>a. a_id a = i) as) ids"

record thread_attachment =
  ta_fileId :: objectid
  ta_fileName :: jsstring
  ta_url :: jsstring

record thread_item =
  t_messageId :: objectid
  t_role :: role
  t_content :: "jsstring option"
  t_attachments :: "thread_attachment list"
  t_createdAt :: date

definition file_url :: "jsstring \<Rightarrow> jsstring \<Rightarrow> jsstring" where
  "file_url PORT filePath = js ''http://localhost:'' @ PORT @ filePath"

definition thread_entry :: "jsstring \<Rightarrow> world \<Rightarrow> message \<Rightarrow> thread_item" where
  "thread_entry PORT w m =
     \<lparr>t_messageId = m_id m, t_role = m_role m, t_content = m_content m,
      t_attachments =
        map (\<lambda>a. \<lparr>ta_fileId = a_id a, ta_fileName = a_fileName a,
                  ta_url = file_url PORT (a_filePath a)\<rparr>)
            (populate (attachments w) (m_attachments m)),
      t_createdAt = m_createdAt m\<rparr>"

text \<open>\<open>Message.find({sessionId}).sort({createdAt: 1})\<close>, stored order among equal keys.\<close>

definition Message_find :: "jsstring \<Rightarrow> world \<Rightarrow> message list" where
  "Message_find sessionId w =
     sort_key m_createdAt
       (filter (\<lambda>m. m_sessionId m = Some (bson_string sessionId)) (messages w))"

definition getThread :: "jsstring \<Rightarrow> jsstring \<Rightarrow> world \<Rightarrow> thread_item list response" where
  "getThread PORT sessionId w = success (map (thread_entry PORT w) (Message_find sessionId w))"

section \<open>POST /api/upload\<close>

record upload_file =
  f_originalname :: jsstring
  f_mimetype :: jsstring
  f_size :: nat

record upload_request =
  u_file :: "upload_file option"
  u_sessionId :: "jsstring option"

record upload_data =
  ud_fileId :: objectid
  ud_fileName :: jsstring
  ud_fileType :: jsstring
  ud_fileSize :: nat
  ud_url :: jsstring

definition allowed :: "jsstring list" where
  "allowed =
     [js ''image/jpeg'', js ''image/png'', js ''image/gif'', js ''application/pdf'',
      js ''application/msword'',
      js ''application/vnd.openxmlformats-officedocument.wordprocessingml.document'',
      js ''text/plain'']"

definition fileSize_limit :: nat where
  "fileSize_limit = 50 * 1024 * 1024"

text \<open>
  \<open>Attachment.create\<close> with the five fields the upload handler gives; no \<open>messageId\<close>.
  The result is the document as the handler holds it; the collection gets it with its
  strings as the store holds them.
\<close>

definition Attachment_create ::
  "jsstring option \<Rightarrow> jsstring \<Rightarrow> jsstring \<Rightarrow> nat \<Rightarrow> jsstring \<Rightarrow> world \<Rightarrow> attachment \<times> world"
where
  "Attachment_create sessionId fileName fileType fileSize filePath w =
     (let a = \<lparr>a_id = next_id w, a_sessionId = sessionId, a_messageId = None,
               a_fileName = fileName, a_fileType = fileType, a_fileSize = fileSize,
               a_filePath = filePath, a_uploadedAt = clock w\<rparr>;
          stored = a\<lparr>a_sessionId := map_option bson_string sessionId,
                     a_fileName := bson_string fileName, a_fileType := bson_string fileType,
                     a_filePath := bson_string filePath\<rparr>
      in (a, w\<lparr>attachments := attachments w @ [stored], next_id := Suc (next_id w)\<rparr>))"

text \<open>
  The upload middleware runs before the handler: a file of a type not in \<open>allowed\<close> or
  above the size limit makes it fail, and the handler is not run. An accepted file is
  stored under \<open>Date.now() + '-' + originalname\<close>. In the handler, only a missing file
  is refused; \<open>Attachment.create\<close> has nothing to reject in what the handler gives it.
\<close>

datatype upload_result = MiddlewareError | Handled "upload_data response"

definition upload :: "jsstring \<Rightarrow> upload_request \<Rightarrow> world \<Rightarrow> upload_result \<times> world" where
  "upload PORT req w =
     (case u_file req of
        None \<Rightarrow> (Handled (failure 400), w)
      | Some f \<Rightarrow>
          if f_mimetype f \<notin> set allowed \<or> fileSize_limit < f_size f then (MiddlewareError, w)
          else
            let filename = string_of_nat (clock w) @ js ''-'' @ f_originalname f;
                sessionId = (case u_sessionId req of None \<Rightarrow> None
                             | Some s \<Rightarrow> if s = [] then None else Some s);
                (a, w') = Attachment_create sessionId (f_originalname f) (f_mimetype f)
                            (f_size f) (js ''/uploads/'' @ filename) w
            in (Handled (success
                  \<lparr>ud_fileId = a_id a, ud_fileName = a_fileName a, ud_fileType = a_fileType a,
                   ud_fileSize = a_fileSize a, ud_url = file_url PORT (a_filePath a)\<rparr>), w'))"

section \<open>Reachable worlds\<close>

text \<open>
  The worlds the server can be in: it starts with empty collections, and each step is a
  chat request, an upload or the passing of time. The two read requests change nothing.
\<close>

inductive reachable :: "library \<Rightarrow> world \<Rightarrow> bool" for L :: library where
  start: "reachable L (init t)"
| chat: "reachable L w \<Longrightarrow> reachable L (snd (sendTurn L e b w))"
| uploaded: "reachable L w \<Longrightarrow> reachable L (snd (upload PORT req w))"
| tick: "reachable L w \<Longrightarrow> reachable L (w\<lparr>clock := clock w + d\<rparr>)"

section \<open>A library for the examples\<close>

text \<open>
  The examples give attachment ids as strings, keywords and titles in ASCII, and no
  pattern with a metacharacter other than the dot. For them: a string of 24 hexadecimal
  digits is cast to the id it writes, and nothing else is cast; upper and lower case of
  the letters \<open>A\<close> to \<open>Z\<close> are held equal; every pattern left to the engine is refused.
\<close>

definition hex_digit :: "nat \<Rightarrow> nat option" where
  "hex_digit c =
     (if 48 \<le> c \<and> c \<le> 57 then Some (c - 48)
      else if 97 \<le> c \<and> c \<le> 102 then Some (c - 87)
      else if 65 \<le> c \<and> c \<le> 70 then Some (c - 55)
      else None)"

fun hex_value :: "nat \<Rightarrow> jsstring \<Rightarrow> nat option" where
  "hex_value acc [] = Some acc"
| "hex_value acc (c # cs) =
     (case hex_digit c of None \<Rightarrow> None | Some d \<Rightarrow> hex_value (16 * acc + d) cs)"

fun hex24 :: "jsval \<Rightarrow> objectid option" where
  "hex24 (JStr s) = (if length s = 24 then hex_value 0 s else None)"
| "hex24 v = None"

definition fold_case :: "nat \<Rightarrow> nat" where
  "fold_case c = (if 65 \<le> c \<and> c \<le> 90 then c + 32 else c)"

definition example_library :: library where
  "example_library = \<lparr>castObjectId = hex24, caseless = fold_case, regex_beyond = (\<lambda>p. None)\<rparr>"

section \<open>Specification-side definitions and examples\<close>

text \<open>
  A response body of the shape the chat handler reads, with \<open>t\<close> as the text of the
  first part of the first candidate.
\<close>

definition provider_response :: "jsval \<Rightarrow> jsval" where
  "provider_response t =
     JObj [(js ''candidates'', JArr [JObj [(js ''content'',
       JObj [(js ''parts'', JArr [JObj [(js ''text'', t)]])])]])]"

text \<open>
  The listing filter in the spec's words: the conversation is not deleted and, for a
  non-empty keyword, the characters of the keyword occur in the title as one contiguous
  run, two characters counting as the same when the case folding \<open>f\<close> gives the same
  character for both.
\<close>

definition spec_filter :: "(nat \<Rightarrow> nat) \<Rightarrow> jsstring \<Rightarrow> conversation \<Rightarrow> bool" where
  "spec_filter f keyword c \<longleftrightarrow>
     \<not> c_isDeleted c \<and>
     (keyword = [] \<or>
      sublist (map f (code_points keyword)) (map f (code_points (c_title c))))"

text \<open>
  \<open>before a b xs\<close>: an occurrence of \<open>a\<close> in \<open>xs\<close> is followed, later in the list, by
  an occurrence of \<open>b\<close>.
\<close>

fun before :: "'a \<Rightarrow> 'a \<Rightarrow> 'a list \<Rightarrow> bool" where
  "before a b [] = False"
| "before a b (y # ys) = ((y = a \<and> b \<in> set ys) \<or> before a b ys)"

text \<open>
  Example endpoints: one that answers every prompt with a response of the expected
  shape, one whose every call fails, and one that answers with an object that has no
  \<open>candidates\<close>.
\<close>

definition env_reply :: "jsval \<Rightarrow> env" where
  "env_reply t = \<lparr>axios_post = (\<lambda>p. AxiosResponse (provider_response t)), latency = 7\<rparr>"

definition env_down :: env where
  "env_down = \<lparr>axios_post = (\<lambda>p. AxiosFailure), latency = 7\<rparr>"


text \<open>
  A chat request body with a session id, a message and the \<open>attachments\<close> value.
\<close>

definition chat :: "string \<Rightarrow> string \<Rightarrow> jsval \<Rightarrow> body" where
  "chat sid msg atts = \<lparr>b_sessionId = JStr (js sid), b_message = JStr (js msg), b_attachments = atts\<rparr>"

text \<open>
  Listing queries: a keyword search with default paging, and a page and limit with no
  keyword.
\<close>

definition search :: "string \<Rightarrow> query" where
  "search k = \<lparr>q_page = None, q_limit = None, q_keyword = Some (js k)\<rparr>"

definition paged :: "string \<Rightarrow> string \<Rightarrow> query" where
  "paged p l = \<lparr>q_page = Some (js p), q_limit = Some (js l), q_keyword = None\<rparr>"

text \<open>
  Chat requests and the worlds they lead to from an empty store at time 100.
\<close>

definition hello :: body where
  "hello = chat ''s1'' ''hello'' JUndefined"

definition turn_plan :: body where
  "turn_plan = chat ''s1'' ''Project Plan for the third quarter'' JUndefined"

definition turn_b :: body where
  "turn_b = chat ''s1'' ''plan b'' JUndefined"

definition world1 :: world where
  "world1 = snd (sendTurn example_library (env_reply (JStr (js ''Hi''))) turn_plan (init 100))"

definition world2 :: world where
  "world2 = snd (sendTurn example_library (env_reply (JStr (js ''Ok''))) turn_b world1)"

definition chat_null_id :: body where
  "chat_null_id = chat ''s1'' ''hello'' (JArr [JNull, JStr (js ''00000000000000000000002a'')])"

text \<open>
  A request whose attachment id is not the text of an ObjectId.
\<close>

definition chat_bad_id :: body where
  "chat_bad_id = chat ''s1'' ''hello'' (JArr [JStr (js ''abc'')])"

text \<open>
  A text of 32 code units whose 30th and 31st are the surrogate pair of U+1F600, and a
  request that sends it.
\<close>

definition emoji_text :: jsstring where
  "emoji_text = js ''aaaaaaaaaaaaaaaaaaaaaaaaaaaaa'' @ [0xD83D, 0xDE00, 122]"

definition chat_emoji :: body where
  "chat_emoji = \<lparr>b_sessionId = JStr (js ''s1''), b_message = JStr emoji_text,
                  b_attachments = JUndefined\<rparr>"

definition world_plan :: world where
  "world_plan = snd (sendTurn example_library (env_reply (JStr (js ''Hi''))) (chat ''s1'' ''Project Plan'' JUndefined) (init 100))"

text \<open>
  Stores holding fifteen and three conversations, the \<open>i\<close>-th updated at time \<open>i\<close>.
\<close>

definition conv_n :: "nat \<Rightarrow> conversation" where
  "conv_n i = \<lparr>c_id = i, c_sessionId = Some [97 + i], c_userId = None, c_title = js ''t'',
              c_createdAt = i, c_updatedAt = i, c_isDeleted = False\<rparr>"

definition world15 :: world where
  "world15 = (init 100)\<lparr>conversations := map conv_n [0..<15], next_id := 15\<rparr>"

definition world3 :: world where
  "world3 = (init 100)\<lparr>conversations := [conv_n 0, conv_n 1, conv_n 2], next_id := 3\<rparr>"

text \<open>
  The pagination object and the ids listed in the outcome of a listing request.
\<close>

definition pagination_of :: "error + list_data response \<Rightarrow> pagination option" where
  "pagination_of x = (case x of Inr r \<Rightarrow> map_option l_pagination (r_data r) | Inl e \<Rightarrow> None)"

definition listed_ids :: "error + list_data response \<Rightarrow> objectid list option" where
  "listed_ids x =
     (case x of Inr r \<Rightarrow> map_option (\<lambda>d. map li_id (l_list d)) (r_data r) | Inl e \<Rightarrow> None)"

text \<open>
  An accepted upload, and a turn that refers to the uploaded attachment (id 0) and to
  an id (42) that no attachment has.
\<close>

definition png :: upload_request where
  "png = \<lparr>u_file = Some \<lparr>f_originalname = js ''a.png'', f_mimetype = js ''image/png'', f_size = 10\<rparr>,
          u_sessionId = None\<rparr>"

definition world_up :: world where
  "world_up = snd (upload (js ''3001'') png (init 100))"

definition look :: body where
  "look = chat ''s1'' ''look''
     (JArr [JStr (js ''000000000000000000000000''), JStr (js ''00000000000000000000002a'')])"

definition world_thread :: world where
  "world_thread = snd (sendTurn example_library (env_reply (JStr (js ''Hi''))) look world_up)"

text \<open>
  The listing that holds the one conversation of \<open>world_plan\<close>.
\<close>

definition plan_listing :: "error + list_data response" where
  "plan_listing = Inr \<lparr>r_status = 200, r_code = 0, r_data = Some
       \<lparr>l_list = [\<lparr>li_id = 2, li_sessionId = Some (js ''s1''), li_title = js ''Project Plan'',
           li_updatedAt = 107, li_messageCount = 2\<rparr>],
        l_pagination = \<lparr>p_page = 1, p_limit = 20, p_total = 1, p_hasMore = False\<rparr>\<rparr>\<rparr>"

section \<open>Chat turn: validation and failures of the endpoint\<close>

lemma well_formed_bson_string: "well_formed s \<Longrightarrow> bson_string s = s"
  by (induction s rule: well_formed.induct) (auto split: if_splits)

lemma bson_string_Nil_iff [simp]: "bson_string s = [] \<longleftrightarrow> s = []"
  by (induction s rule: bson_string.induct) auto

text \<open>
  C3. A chat request whose \<open>sessionId\<close> or \<open>message\<close> is absent or empty (or falsy in any
  other way) is answered with status 400 and code 400, and the world is left exactly as
  it was: no message is stored, no prompt is posted to the endpoint, no conversation is
  upserted.
\<close>

theorem sendTurn_validation:
  assumes "\<not> truthy (b_sessionId b) \<or> \<not> truthy (b_message b)"
  shows "sendTurn L e b w = (\<lparr>r_status = 400, r_code = 400, r_data = None\<rparr>, w)"
  using assms by (auto simp: sendTurn_def failure_def)

lemma castString_truthy:
  "truthy v \<Longrightarrow> castString v = Inr x \<Longrightarrow> \<exists>s. x = Some s"
  by (cases v) (auto split: option.splits jsval.splits if_splits)

lemma Message_create_Inr:
  "Message_create L sid r c atts sa w = Inr (m, w') \<longleftrightarrow>
     (\<exists>s t ids. castString sid = Inr s \<and> castString c = Inr t \<and>
        castObjectIds (castObjectId L) atts = Inr ids \<and>
        m = \<lparr>m_id = next_id w, m_sessionId = map_option bson_string s, m_role = r,
              m_content = map_option bson_string t,
              m_attachments = ids, m_senderAi = map_option bson_string sa,
              m_createdAt = clock w\<rparr> \<and>
        w' = w\<lparr>messages := messages w @ [m], next_id := Suc (next_id w)\<rparr>)"
  by (auto simp: Message_create_def Let_def split: sum.splits)

lemma chat_try_called:
  assumes "gateway_log (snd (chat_try L e sid msg atts w)) \<noteq> gateway_log w"
  shows "\<exists>ids um w1. js_filter_Boolean atts = Inr ids \<and>
           Message_create L sid User msg ids None w = Inr (um, w1)"
  using assms
  by (auto simp: chat_try_def split: sum.splits prod.splits)

lemma sendTurn_called:
  assumes "gateway_log (snd (sendTurn L e b w)) \<noteq> gateway_log w"
  shows "truthy (b_sessionId b) \<and> truthy (b_message b) \<and>
         gateway_log (snd (chat_try L e (b_sessionId b) (b_message b)
            (case b_attachments b of JUndefined \<Rightarrow> JArr [] | v \<Rightarrow> v) w)) \<noteq> gateway_log w"
  using assms
  by (auto simp: sendTurn_def Let_def split: sum.splits prod.splits if_splits)

text \<open>
  C1. In a chat turn that reaches the generative-AI endpoint (the log of posted prompts
  grows) and whose call fails, the response is status 500 with code 500; the only
  message added is the user message, holding the cast session id and text as the store
  keeps strings (unchanged when well formed), so no reply message is stored; the
  conversations are untouched; and the thread of that session lists an entry with the
  user message's id, the role \<open>user\<close> and its text.
\<close>

theorem sendTurn_gateway_failure:
  assumes called: "gateway_log (snd (sendTurn L e b w)) \<noteq> gateway_log w"
      and failed: "axios_post e (b_message b) = AxiosFailure"
  shows "\<exists>userMsg sid cnt items item.
           fst (sendTurn L e b w) = \<lparr>r_status = 500, r_code = 500, r_data = None\<rparr> \<and>
           messages (snd (sendTurn L e b w)) = messages w @ [userMsg] \<and>
           m_role userMsg = User \<and>
           castString (b_sessionId b) = Inr (Some sid) \<and>
           m_sessionId userMsg = Some (bson_string sid) \<and>
           (well_formed sid \<longrightarrow> m_sessionId userMsg = Some sid) \<and>
           castString (b_message b) = Inr (Some cnt) \<and>
           m_content userMsg = Some (bson_string cnt) \<and>
           (well_formed cnt \<longrightarrow> castString (b_message b) = Inr (m_content userMsg)) \<and>
           conversations (snd (sendTurn L e b w)) = conversations w \<and>
           getThread PORT sid (snd (sendTurn L e b w)) = success items \<and>
           thread_entry PORT (snd (sendTurn L e b w)) userMsg \<in> set items \<and>
           item \<in> set items \<and> t_messageId item = m_id userMsg \<and> t_role item = User \<and>
           t_content item = Some (bson_string cnt)"
proof -
  let ?atts = "case b_attachments b of JUndefined \<Rightarrow> JArr [] | v \<Rightarrow> v"
  from sendTurn_called [OF called]
  have ts: "truthy (b_sessionId b)" and tm: "truthy (b_message b)"
    and c: "gateway_log (snd (chat_try L e (b_sessionId b) (b_message b) ?atts w)) \<noteq> gateway_log w"
    by auto
  from chat_try_called [OF c] obtain ids um w1 where
    f: "js_filter_Boolean ?atts = Inr ids" and
    mc: "Message_create L (b_sessionId b) User (b_message b) ids None w = Inr (um, w1)"
    by blast
  from mc obtain s t where cs: "castString (b_sessionId b) = Inr s"
    and ct: "castString (b_message b) = Inr t"
    and um: "um = \<lparr>m_id = next_id w, m_sessionId = map_option bson_string s, m_role = User,
              m_content = map_option bson_string t,
              m_attachments = m_attachments um, m_senderAi = None, m_createdAt = clock w\<rparr>"
    and w1: "w1 = w\<lparr>messages := messages w @ [um], next_id := Suc (next_id w)\<rparr>"
    by (auto simp: Message_create_Inr)
  from castString_truthy [OF ts cs] obtain sid where s: "s = Some sid" by blast
  from castString_truthy [OF tm ct] obtain cnt where t: "t = Some cnt" by blast
  let ?w2 = "w1\<lparr>gateway_log := gateway_log w1 @ [b_message b], clock := clock w1 + latency e\<rparr>"
  have ctry: "chat_try L e (b_sessionId b) (b_message b) ?atts w = (Inl AxiosError, ?w2)"
    using f mc failed by (simp add: chat_try_def Let_def)
  have st: "sendTurn L e b w = (failure 500, ?w2)"
    using ts tm ctry by (simp add: sendTurn_def Let_def)
  have role: "m_role um = User" and sess: "m_sessionId um = Some (bson_string sid)"
    and cont: "m_content um = Some (bson_string cnt)"
    using um s t by (metis message.select_convs option.simps(9))+
  have mem: "um \<in> set (Message_find sid ?w2)"
    using w1 sess by (simp add: Message_find_def)
  let ?items = "map (thread_entry PORT ?w2) (Message_find sid ?w2)"
  let ?item = "thread_entry PORT ?w2 um"
  have 1: "fst (sendTurn L e b w) = \<lparr>r_status = 500, r_code = 500, r_data = None\<rparr>"
    using st by (simp add: failure_def)
  have 2: "messages (snd (sendTurn L e b w)) = messages w @ [um]"
    using st w1 by simp
  have 3: "conversations (snd (sendTurn L e b w)) = conversations w"
    using st w1 by simp
  have 4: "getThread PORT sid (snd (sendTurn L e b w)) = success ?items"
    using st by (simp add: getThread_def)
  have 5: "thread_entry PORT (snd (sendTurn L e b w)) um \<in> set ?items"
    using st mem by simp
  have 6: "?item \<in> set ?items" using mem by simp
  have 7: "t_messageId ?item = m_id um" "t_role ?item = User"
    "t_content ?item = Some (bson_string cnt)"
    using role cont by (simp_all add: thread_entry_def)
  have 8: "well_formed sid \<longrightarrow> m_sessionId um = Some sid"
    using sess by (simp add: well_formed_bson_string)
  have 9: "well_formed cnt \<longrightarrow> castString (b_message b) = Inr (m_content um)"
    using cont ct t by (simp add: well_formed_bson_string)
  show ?thesis
    apply (rule exI [of _ um], rule exI [of _ sid], rule exI [of _ cnt],
           rule exI [of _ ?items], rule exI [of _ ?item])
    using 1 2 3 4 5 6 7 8 9 role sess cont cs s ct t by simp
qed


lemma candidate_text_provider_response: "candidate_text (provider_response t) = Inr t"
  by (simp add: candidate_text_def provider_response_def js_def)




lemma bson_string_NO_REPLY: "bson_string NO_REPLY = NO_REPLY"
  by (simp add: NO_REPLY_def is_high_def is_low_def)


section \<open>Chat turn: the conversation upsert and the stored attachments\<close>

lemma js_substring0_Inr:
  "js_substring0 v n = Inr t \<longleftrightarrow> (\<exists>s. v = JStr s \<and> t = take n s)"
  by (cases v) auto

lemma chat_try_Inr:
  assumes "chat_try L e sid msg atts w = (Inr d, w')"
  shows "\<exists>ids um w1 dt t rm w3 s.
           js_filter_Boolean atts = Inr ids \<and>
           Message_create L sid User msg ids None w = Inr (um, w1) \<and>
           axios_post e msg = AxiosResponse dt \<and>
           candidate_text dt = Inr t \<and>
           Message_create L sid Gemini3 (js_or t (JStr NO_REPLY)) [] (Some (js ''gemini-1.5-pro''))
             (w1\<lparr>gateway_log := gateway_log w1 @ [msg], clock := clock w1 + latency e\<rparr>)
             = Inr (rm, w3) \<and>
           msg = JStr s \<and>
           Conversation_updateOne sid (clock w3) (take 30 s) w3 = Inr w' \<and>
           d = \<lparr>d_sessionId = sid, d_messageId = m_id rm, d_role = Gemini3,
                d_content = js_or t (JStr NO_REPLY), d_createdAt = m_createdAt rm\<rparr>"
  using assms unfolding chat_try_def Let_def
  by (auto split: sum.splits prod.splits axios_result.splits simp: js_substring0_Inr)

lemma sendTurn_success:
  assumes "sendTurn L e b w = (r, w')" and "r_code r = 0"
  shows "truthy (b_sessionId b) \<and> truthy (b_message b) \<and>
         (\<exists>d. r = success d \<and>
            chat_try L e (b_sessionId b) (b_message b)
              (case b_attachments b of JUndefined \<Rightarrow> JArr [] | v \<Rightarrow> v) w = (Inr d, w'))"
  using assms
  by (auto simp: sendTurn_def Let_def failure_def split: if_splits sum.splits prod.splits)

lemma update_first_filter_eq:
  assumes "\<And>c. c_sessionId (f c) = c_sessionId c"
  shows "filter (\<lambda>c. c_sessionId c = sid) (update_first (\<lambda>c. c_sessionId c = sid) f cs)
         = (case filter (\<lambda>c. c_sessionId c = sid) cs of [] \<Rightarrow> [] | x # xs \<Rightarrow> f x # xs)"
  by (induction cs) (auto simp: assms split: list.splits)

lemma update_first_filter_neq:
  "filter (\<lambda>c. c_sessionId c \<noteq> sid) (update_first (\<lambda>c. c_sessionId c = sid) f cs)
     = filter (\<lambda>c. c_sessionId c \<noteq> sid) cs" if "\<And>c. c_sessionId (f c) = c_sessionId c"
  by (induction cs) (auto simp: that)

lemma update_first_map_sessionId:
  "map c_sessionId (update_first P f cs) = map c_sessionId cs" if "\<And>c. c_sessionId (f c) = c_sessionId c"
  by (induction cs) (auto simp: that)

lemma distinct_filter_le1:
  "distinct (map c_sessionId cs) \<Longrightarrow> length (filter (\<lambda>c. c_sessionId c = sid) cs) \<le> 1"
  by (induction cs) (auto simp: filter_empty_conv image_iff)

lemma Conversation_updateOne_upserts:
  assumes cs: "castString v = Inr sid0"
      and d: "distinct (map c_sessionId (conversations w))"
      and up: "Conversation_updateOne v t ttl w = Inr w'"
  shows "\<exists>c. filter (\<lambda>c. c_sessionId c = map_option bson_string sid0) (conversations w') = [c] \<and>
             c_title c = bson_string ttl \<and> c_updatedAt c = t \<and>
             filter (\<lambda>c. c_sessionId c \<noteq> map_option bson_string sid0) (conversations w')
               = filter (\<lambda>c. c_sessionId c \<noteq> map_option bson_string sid0) (conversations w) \<and>
             distinct (map c_sessionId (conversations w')) \<and>
             clock w' = clock w"
proof (cases "list_ex (\<lambda>c. c_sessionId c = map_option bson_string sid0) (conversations w)")
  case True
  let ?sid = "map_option bson_string sid0"
  let ?f = "\<lambda>c. c\<lparr>c_updatedAt := t, c_title := bson_string ttl\<rparr>"
  have w': "w' = w\<lparr>conversations := update_first (\<lambda>c. c_sessionId c = ?sid) ?f (conversations w)\<rparr>"
    using up cs True by (simp add: Conversation_updateOne_def Let_def)
  from True obtain x where x: "filter (\<lambda>c. c_sessionId c = ?sid) (conversations w) = [x]"
    using distinct_filter_le1 [OF d, of ?sid]
    by (cases "filter (\<lambda>c. c_sessionId c = ?sid) (conversations w)")
       (auto simp: list_ex_iff filter_empty_conv)
  have "filter (\<lambda>c. c_sessionId c = ?sid) (conversations w') = [?f x]"
    using x by (simp add: w' update_first_filter_eq)
  then show ?thesis
    using d by (simp add: w' update_first_filter_neq update_first_map_sessionId)
next
  case False
  let ?sid = "map_option bson_string sid0"
  from False have none: "filter (\<lambda>c. c_sessionId c = ?sid) (conversations w) = []"
    by (auto simp: list_ex_iff filter_empty_conv)
  have w': "w' = w\<lparr>conversations := conversations w @
                [\<lparr>c_id = next_id w, c_sessionId = ?sid, c_userId = None,
                  c_title = bson_string ttl,
                  c_createdAt = clock w, c_updatedAt = t, c_isDeleted = False\<rparr>],
                next_id := Suc (next_id w)\<rparr>"
    using up cs False by (simp add: Conversation_updateOne_def Let_def)
  have "?sid \<notin> c_sessionId ` set (conversations w)"
    using False by (auto simp: list_ex_iff)
  then show ?thesis
    using d none by (simp add: w')
qed

lemma sendTurn_upsert_one:
  assumes run: "sendTurn L e b w = (r, w')" and ok: "r_code r = 0"
      and d: "distinct (map c_sessionId (conversations w))"
  shows "\<exists>t sid c. b_message b = JStr t \<and> castString (b_sessionId b) = Inr (Some sid) \<and>
           filter (\<lambda>c. c_sessionId c = Some (bson_string sid)) (conversations w') = [c] \<and>
           c_title c = bson_string (take 30 t) \<and> c_updatedAt c = clock w' \<and>
           filter (\<lambda>c. c_sessionId c \<noteq> Some (bson_string sid)) (conversations w')
             = filter (\<lambda>c. c_sessionId c \<noteq> Some (bson_string sid)) (conversations w) \<and>
           distinct (map c_sessionId (conversations w'))"
proof -
  let ?atts = "case b_attachments b of JUndefined \<Rightarrow> JArr [] | v \<Rightarrow> v"
  from sendTurn_success [OF run ok] obtain dd where ts: "truthy (b_sessionId b)"
    and ct: "chat_try L e (b_sessionId b) (b_message b) ?atts w = (Inr dd, w')"
    by blast
  from chat_try_Inr [OF ct] obtain ids um w1 dt t rm w3 s where
    mc: "Message_create L (b_sessionId b) User (b_message b) ids None w = Inr (um, w1)" and
    mc2: "Message_create L (b_sessionId b) Gemini3 (js_or t (JStr NO_REPLY)) []
            (Some (js ''gemini-1.5-pro''))
            (w1\<lparr>gateway_log := gateway_log w1 @ [b_message b], clock := clock w1 + latency e\<rparr>)
            = Inr (rm, w3)" and
    str: "b_message b = JStr s" and
    up: "Conversation_updateOne (b_sessionId b) (clock w3) (take 30 s) w3 = Inr w'"
    by blast
  from mc obtain s0 where cs: "castString (b_sessionId b) = Inr s0"
    and w1: "conversations w1 = conversations w"
    by (auto simp: Message_create_Inr)
  from castString_truthy [OF ts cs] obtain sid where s0: "s0 = Some sid" by blast
  from mc2 have w3: "conversations w3 = conversations w1"
    by (auto simp: Message_create_Inr)
  have d3: "distinct (map c_sessionId (conversations w3))"
    using d w1 w3 by simp
  from Conversation_updateOne_upserts [OF cs d3 up] show ?thesis
    using str cs s0 w1 w3 by auto
qed

text \<open>
  C2, as amended. After a successful chat turn (code 0) on a store that holds at most
  one conversation per session id, exactly one conversation has the turn's session id;
  its title is the first 30 code units of the message text as the store keeps strings,
  which is exactly these 30 code units when they are well-formed UTF-16 (the cut does
  not split a surrogate pair); its \<open>updatedAt\<close> is the time of the upsert; every other
  conversation is as before. A second successful turn on the same session leaves
  exactly one such conversation again, titled in the same way from the second message.
\<close>

theorem sendTurn_upsert_title:
  assumes run: "sendTurn L e b w = (r, w')" and ok: "r_code r = 0"
      and d: "distinct (map c_sessionId (conversations w))"
  shows "\<exists>t sid c. b_message b = JStr t \<and> castString (b_sessionId b) = Inr (Some sid) \<and>
           filter (\<lambda>c. c_sessionId c = Some (bson_string sid)) (conversations w') = [c] \<and>
           c_title c = bson_string (take 30 t) \<and>
           (well_formed (take 30 t) \<longrightarrow> c_title c = take 30 t) \<and>
           c_updatedAt c = clock w' \<and>
           filter (\<lambda>c. c_sessionId c \<noteq> Some (bson_string sid)) (conversations w')
             = filter (\<lambda>c. c_sessionId c \<noteq> Some (bson_string sid)) (conversations w) \<and>
           (\<forall>e2 b2 r2 w2.
              sendTurn L e2 b2 w' = (r2, w2) \<and> r_code r2 = 0 \<and>
              castString (b_sessionId b2) = Inr (Some sid) \<longrightarrow>
              (\<exists>t2 c2. b_message b2 = JStr t2 \<and>
                 filter (\<lambda>c. c_sessionId c = Some (bson_string sid)) (conversations w2) = [c2] \<and>
                 c_title c2 = bson_string (take 30 t2) \<and>
                 (well_formed (take 30 t2) \<longrightarrow> c_title c2 = take 30 t2) \<and>
                 c_updatedAt c2 = clock w2))"
proof -
  from sendTurn_upsert_one [OF run ok d] obtain t sid c where
    1: "b_message b = JStr t" "castString (b_sessionId b) = Inr (Some sid)"
       "filter (\<lambda>c. c_sessionId c = Some (bson_string sid)) (conversations w') = [c]"
       "c_title c = bson_string (take 30 t)" "c_updatedAt c = clock w'"
       "filter (\<lambda>c. c_sessionId c \<noteq> Some (bson_string sid)) (conversations w')
             = filter (\<lambda>c. c_sessionId c \<noteq> Some (bson_string sid)) (conversations w)"
    and d': "distinct (map c_sessionId (conversations w'))"
    by blast
  have 2: "\<exists>t2 c2. b_message b2 = JStr t2 \<and>
                 filter (\<lambda>c. c_sessionId c = Some (bson_string sid)) (conversations w2) = [c2] \<and>
                 c_title c2 = bson_string (take 30 t2) \<and>
                 (well_formed (take 30 t2) \<longrightarrow> c_title c2 = take 30 t2) \<and>
                 c_updatedAt c2 = clock w2"
    if "sendTurn L e2 b2 w' = (r2, w2)" "r_code r2 = 0" "castString (b_sessionId b2) = Inr (Some sid)"
    for e2 b2 r2 w2
    using sendTurn_upsert_one [OF that(1,2) d'] that(3)
    by (auto simp: well_formed_bson_string)
  have 3: "well_formed (take 30 t) \<longrightarrow> c_title c = take 30 t"
    using 1(4) by (simp add: well_formed_bson_string)
  from 1 2 3 show ?thesis by blast
qed

lemma castObjectIds_Inr_D:
  "castObjectIds cast vs = Inr ids \<Longrightarrow> map cast vs = map Some ids"
  by (induction vs arbitrary: ids) (auto split: option.splits sum.splits)

lemma Conversation_updateOne_messages:
  "Conversation_updateOne v t ttl w = Inr w' \<Longrightarrow> messages w' = messages w"
  by (auto simp: Conversation_updateOne_def Let_def split: sum.splits if_splits)

lemma chat_try_messages:
  assumes f: "js_filter_Boolean atts = Inr ids"
      and mc: "Message_create L sid User msg ids None w = Inr (um, w1)"
  shows "\<exists>rest. messages (snd (chat_try L e sid msg atts w)) = messages w @ um # rest"
proof -
  from mc have w1: "messages w1 = messages w @ [um]"
    by (auto simp: Message_create_Inr)
  have "chat_try L e sid msg atts w =
      (let w2 = w1\<lparr>gateway_log := gateway_log w1 @ [msg], clock := clock w1 + latency e\<rparr> in
       case axios_post e msg of AxiosFailure \<Rightarrow> (Inl AxiosError, w2)
       | AxiosResponse d \<Rightarrow>
       case candidate_text d of Inl x \<Rightarrow> (Inl x, w2) | Inr t \<Rightarrow>
       let geminiText = js_or t (JStr NO_REPLY) in
       case Message_create L sid Gemini3 geminiText [] (Some (js ''gemini-1.5-pro'')) w2 of
         Inl x \<Rightarrow> (Inl x, w2)
       | Inr (geminiMsg, w3) \<Rightarrow>
       case js_substring0 msg 30 of Inl x \<Rightarrow> (Inl x, w3) | Inr title \<Rightarrow>
       case Conversation_updateOne sid (clock w3) title w3 of Inl x \<Rightarrow> (Inl x, w3)
       | Inr w4 \<Rightarrow>
         (Inr \<lparr>d_sessionId = sid, d_messageId = m_id geminiMsg, d_role = Gemini3,
               d_content = geminiText, d_createdAt = m_createdAt geminiMsg\<rparr>, w4))"
    unfolding chat_try_def by (simp add: f mc)
  then show ?thesis
    using w1 unfolding Let_def
    by (auto split: sum.splits prod.splits axios_result.splits
             simp: Message_create_Inr dest!: Conversation_updateOne_messages)
qed

lemma chat_try_stored:
  assumes "messages (snd (chat_try L e sid msg atts w)) \<noteq> messages w"
  shows "\<exists>ids um w1. js_filter_Boolean atts = Inr ids \<and>
           Message_create L sid User msg ids None w = Inr (um, w1)"
  using assms
  by (auto simp: chat_try_def split: sum.splits prod.splits)

lemma sendTurn_chat_try:
  "truthy (b_sessionId b) \<Longrightarrow> truthy (b_message b) \<Longrightarrow>
   snd (sendTurn L e b w) = snd (chat_try L e (b_sessionId b) (b_message b)
      (case b_attachments b of JUndefined \<Rightarrow> JArr [] | v \<Rightarrow> v) w)"
  by (auto simp: sendTurn_def Let_def split: sum.splits prod.splits)

lemma js_filter_Boolean_Inr:
  "js_filter_Boolean v = Inr ids \<longleftrightarrow> (\<exists>xs. v = JArr xs \<and> ids = filter truthy xs)"
  by (cases v) auto

lemma castObjectIds_all:
  "list_all (\<lambda>v. cast v \<noteq> None) vs \<Longrightarrow> castObjectIds cast vs = Inr (map (the \<circ> cast) vs)"
  by (induction vs) auto

lemma castObjectIds_not_all:
  "\<not> list_all (\<lambda>v. cast v \<noteq> None) vs \<Longrightarrow> castObjectIds cast vs = Inl CastError"
  by (induction vs) (auto split: option.splits sum.splits)

text \<open>
  C4, as amended. Whenever a chat turn stores a message, the first message it stores
  is the user message, and its attachment ids are the casts of the given array with
  the falsy entries (\<open>null\<close>, empty string, 0, \<open>false\<close>) removed, in order; an absent
  \<open>attachments\<close> counts as the empty array. Nothing is looked up in the attachments
  collection: when the session id and the text cast and every remaining entry casts to
  an id, the user message is stored with exactly those ids, whatever attachments exist;
  when a remaining entry does not cast to an id, the turn is answered with status 500
  and code 500 and the world is left as it was.
\<close>

theorem sendTurn_attachments_filtered:
  shows "(messages (snd (sendTurn L e b w)) \<noteq> messages w \<longrightarrow>
           (\<exists>xs um rest. (b_attachments b = JArr xs \<or> b_attachments b = JUndefined \<and> xs = []) \<and>
              messages (snd (sendTurn L e b w)) = messages w @ um # rest \<and>
              m_role um = User \<and>
              map Some (m_attachments um) = map (castObjectId L) (filter truthy xs)))
       \<and> (\<forall>xs sid cnt. truthy (b_sessionId b) \<and> truthy (b_message b) \<and>
              b_attachments b = JArr xs \<and>
              castString (b_sessionId b) = Inr sid \<and> castString (b_message b) = Inr cnt \<longrightarrow>
              (list_all (\<lambda>v. castObjectId L v \<noteq> None) (filter truthy xs) \<longrightarrow>
                 (\<exists>um rest. messages (snd (sendTurn L e b w)) = messages w @ um # rest \<and>
                    m_role um = User \<and>
                    m_attachments um = map (the \<circ> castObjectId L) (filter truthy xs))) \<and>
              (\<not> list_all (\<lambda>v. castObjectId L v \<noteq> None) (filter truthy xs) \<longrightarrow>
                 sendTurn L e b w = (\<lparr>r_status = 500, r_code = 500, r_data = None\<rparr>, w)))"
proof -
  let ?atts = "case b_attachments b of JUndefined \<Rightarrow> JArr [] | v \<Rightarrow> v"
  have A: "\<exists>xs um rest. (b_attachments b = JArr xs \<or> b_attachments b = JUndefined \<and> xs = []) \<and>
              messages (snd (sendTurn L e b w)) = messages w @ um # rest \<and>
              m_role um = User \<and>
              map Some (m_attachments um) = map (castObjectId L) (filter truthy xs)"
    if ch: "messages (snd (sendTurn L e b w)) \<noteq> messages w"
  proof -
  from ch have ts: "truthy (b_sessionId b)" and tm: "truthy (b_message b)"
    by (auto simp: sendTurn_def Let_def split: if_splits)
  note eq = sendTurn_chat_try [OF ts tm, of L e w]
  from ch eq chat_try_stored [of L e "b_sessionId b" "b_message b" ?atts w]
  obtain ids um w1 where f: "js_filter_Boolean ?atts = Inr ids"
    and mc: "Message_create L (b_sessionId b) User (b_message b) ids None w = Inr (um, w1)"
    by auto
  from f obtain xs where xs: "?atts = JArr xs" "ids = filter truthy xs"
    by (auto simp: js_filter_Boolean_Inr)
  then have shape: "b_attachments b = JArr xs \<or> b_attachments b = JUndefined \<and> xs = []"
    by (cases "b_attachments b") auto
  from mc have um: "m_role um = User" "castObjectIds (castObjectId L) ids = Inr (m_attachments um)"
    by (auto simp: Message_create_Inr)
  from chat_try_messages [OF f mc, of e] eq obtain rest where
    "messages (snd (sendTurn L e b w)) = messages w @ um # rest" by auto
  with shape um xs castObjectIds_Inr_D [OF um(2)]
  show ?thesis
    by auto
  qed
  have B: "\<exists>um rest. messages (snd (sendTurn L e b w)) = messages w @ um # rest \<and>
                 m_role um = User \<and>
                 m_attachments um = map (the \<circ> castObjectId L) (filter truthy xs)"
    if a: "truthy (b_sessionId b) \<and> truthy (b_message b) \<and>
              b_attachments b = JArr xs \<and>
              castString (b_sessionId b) = Inr sid \<and> castString (b_message b) = Inr cnt"
      and al: "list_all (\<lambda>v. castObjectId L v \<noteq> None) (filter truthy xs)"
    for xs sid cnt
  proof -
  let ?ids = "map (the \<circ> castObjectId L) (filter truthy xs)"
  let ?um = "\<lparr>m_id = next_id w, m_sessionId = map_option bson_string sid, m_role = User,
              m_content = map_option bson_string cnt,
              m_attachments = ?ids, m_senderAi = None, m_createdAt = clock w\<rparr>"
  let ?w1 = "w\<lparr>messages := messages w @ [?um], next_id := Suc (next_id w)\<rparr>"
  have f: "js_filter_Boolean (case b_attachments b of JUndefined \<Rightarrow> JArr [] | v \<Rightarrow> v)
             = Inr (filter truthy xs)"
    using a by simp
  have mc: "Message_create L (b_sessionId b) User (b_message b) (filter truthy xs) None w
             = Inr (?um, ?w1)"
    using a castObjectIds_all [OF al]
    by (simp add: Message_create_def Let_def)
  from chat_try_messages [OF f mc, of e] sendTurn_chat_try [of b L e w] a
  obtain rest where "messages (snd (sendTurn L e b w)) = messages w @ ?um # rest"
    by auto
  then have "messages (snd (sendTurn L e b w)) = messages w @ ?um # rest \<and>
      m_role ?um = User \<and> m_attachments ?um = ?ids"
    by simp
  then show ?thesis
    by blast
  qed
  have C: "sendTurn L e b w = (\<lparr>r_status = 500, r_code = 500, r_data = None\<rparr>, w)"
    if a: "truthy (b_sessionId b) \<and> truthy (b_message b) \<and>
              b_attachments b = JArr xs \<and>
              castString (b_sessionId b) = Inr sid \<and> castString (b_message b) = Inr cnt"
      and al: "\<not> list_all (\<lambda>v. castObjectId L v \<noteq> None) (filter truthy xs)"
    for xs sid cnt
  proof -
    have "Message_create L (b_sessionId b) User (b_message b) (filter truthy xs) None w
             = Inl CastError"
      using a castObjectIds_not_all [OF al] by (simp add: Message_create_def)
    then have "chat_try L e (b_sessionId b) (b_message b) (JArr xs) w = (Inl CastError, w)"
      by (simp add: chat_try_def)
    then show ?thesis
      using a by (simp add: sendTurn_def Let_def failure_def)
  qed
  from A B C show ?thesis by blast
qed

section \<open>Doubles\<close>

lemma to_double_small: "\<bar>n\<bar> < 2 ^ 53 \<Longrightarrow> to_double n = n"
  by (simp add: to_double_def)

lemma bitlen_bounds: "0 < n \<Longrightarrow> 2 ^ (bitlen n - 1) \<le> n \<and> n < 2 ^ bitlen n"
proof (induction n rule: bitlen.induct)
  case (1 n)
  show ?case
  proof (cases "n div 2 = 0")
    case True
    with 1(2) have "n = 1" by (simp add: div_eq_0_iff) 
    then show ?thesis by (simp add: bitlen.simps)
  next
    case False
    then have pos: "0 < n div 2" by simp
    from 1(1) [OF _ pos] 1(2) have ih: "2 ^ (bitlen (n div 2) - 1) \<le> n div 2"
      "n div 2 < 2 ^ bitlen (n div 2)" by auto
    have b: "bitlen n = Suc (bitlen (n div 2))"
      using 1(2) by (subst bitlen.simps) simp
    have b1: "0 < bitlen (n div 2)"
      using pos by (subst bitlen.simps) simp
    then have "(2::nat) ^ bitlen (n div 2) = 2 * 2 ^ (bitlen (n div 2) - 1)"
      by (cases "bitlen (n div 2)") auto
    with ih(1) have "(2::nat) ^ bitlen (n div 2) \<le> 2 * (n div 2)" by simp
    also have "\<dots> \<le> n" by simp
    finally have lo: "(2::nat) ^ (bitlen n - 1) \<le> n" by (simp add: b)
    have "n < 2 * (n div 2 + 1)" by presburger
    also have "\<dots> \<le> 2 * 2 ^ bitlen (n div 2)" using ih(2) by simp
    finally have hi: "n < 2 ^ bitlen n" by (simp add: b)
    from lo hi show ?thesis by simp
  qed
qed

lemma to_double_mag:
  assumes "2 ^ 53 \<le> \<bar>n\<bar>"
  shows "\<exists>k. to_double n = sgn n * int k \<and> 2 ^ 53 \<le> k"
proof -
  define m where "m = nat \<bar>n\<bar>"
  define e where "e = bitlen m - 53"
  define q where "q = m div 2 ^ e"
  define r where "r = m mod 2 ^ e"
  define q' where "q' = (if 2 ^ e < 2 * r \<or> (2 * r = 2 ^ e \<and> odd q) then q + 1 else q)"
  have m: "2 ^ 53 \<le> m" using assms by (simp add: m_def le_nat_iff)
  then have mpos: "0 < m" by (simp add: less_le_trans [of 0 "2 ^ 53" m])
  from bitlen_bounds [OF mpos] have lo: "2 ^ (bitlen m - 1) \<le> m" and hi: "m < 2 ^ bitlen m"
    by auto
  have bl: "53 < bitlen m"
  proof (rule ccontr)
    assume "\<not> 53 < bitlen m"
    then have "bitlen m \<le> 53" by simp
    then have "(2::nat) ^ bitlen m \<le> 2 ^ 53" by (intro power_increasing) simp_all
    with m hi show False by linarith
  qed
  then have e1: "1 \<le> e" and be: "bitlen m - 1 = 52 + e" by (simp_all add: e_def)
  have "(2::nat) ^ 52 * 2 ^ e \<le> m" using lo be by (simp add: power_add)
  then have "2 ^ 52 \<le> q"
    unfolding q_def by (simp add: less_eq_div_iff_mult_less_eq)
  then have "2 ^ 52 \<le> q'" by (simp add: q'_def)
  then have "(2::nat) ^ 52 * 2 ^ e \<le> q' * 2 ^ e" by simp
  moreover have "(2::nat) ^ 53 \<le> 2 ^ 52 * 2 ^ e"
  proof -
    have "(2::nat) ^ 1 \<le> 2 ^ e" using e1 by (intro power_increasing) simp_all
    then show ?thesis by simp
  qed
  ultimately have k: "2 ^ 53 \<le> q' * 2 ^ e" by (rule order_trans [rotated])
  have "to_double n = sgn n * int (q' * 2 ^ e)"
    using assms unfolding to_double_def Let_def m_def [symmetric] e_def [symmetric]
      q_def [symmetric] r_def [symmetric] q'_def [symmetric]
    by simp
  with k show ?thesis by blast
qed

lemma to_double_less:
  assumes "0 \<le> t" "t \<le> 2 ^ 53"
  shows "to_double x < t \<longleftrightarrow> x < t"
proof (cases "\<bar>x\<bar> < 2 ^ 53")
  case True
  then show ?thesis by (simp add: to_double_small)
next
  case False
  then have "2 ^ 53 \<le> \<bar>x\<bar>" by simp
  from to_double_mag [OF this] obtain k where k: "to_double x = sgn x * int k" "2 ^ 53 \<le> k"
    by blast
  then have ik: "(2::int) ^ 53 \<le> int k" by (metis of_nat_le_iff of_nat_numeral of_nat_power)
  show ?thesis
  proof (cases "0 \<le> x")
    case True
    with False have "2 ^ 53 \<le> x" by simp
    moreover from True False have "sgn x = 1" by (simp add: sgn_if)
    ultimately show ?thesis using k ik assms by simp
  next
    case False
    then have "sgn x = - 1" "x < 0" by (simp_all add: sgn_if)
    then show ?thesis using k ik assms by simp
  qed
qed

section \<open>Listing: filter, pagination and paging parameters\<close>

lemma rx_meta_small: "rx_meta c \<Longrightarrow> c < 128"
  by (auto simp: rx_meta_def js_def)

lemma set_bson_string: "set (bson_string s) \<subseteq> set s \<union> {0xFFFD}"
  by (induction s rule: bson_string.induct) auto

lemma set_code_points: "set (code_points s) \<subseteq> set s \<union> {c. 0x10000 \<le> c}"
  by (induction s rule: code_points.induct) auto

lemma no_meta_pattern:
  assumes "list_all (\<lambda>c. \<not> rx_meta c) k"
  shows "list_all (\<lambda>c. \<not> rx_meta c) (code_points (bson_string k))"
proof -
  have "\<not> rx_meta c" if "c \<in> set (code_points (bson_string k))" for c
  proof -
    from that set_code_points [of "bson_string k"] set_bson_string [of k]
    have "c \<in> set k \<or> c = 0xFFFD \<or> 0x10000 \<le> c" by auto
    then show ?thesis
      using assms rx_meta_small [of c] by (auto simp: list_all_iff)
  qed
  then show ?thesis by (simp add: list_all_iff)
qed

lemma rx_compile_literal:
  "list_all (\<lambda>c. \<not> rx_meta c) k \<Longrightarrow> rx_compile k = Some (map Lit k)"
  by (induction k) (auto simp: rx_meta_def js_def)

lemma rx_match_here_literal:
  "rx_match_here f (map Lit k) t \<longleftrightarrow> prefix (map f k) (map f t)"
proof (induction k arbitrary: t)
  case Nil
  then show ?case by simp
next
  case (Cons c k)
  then show ?case by (cases t) auto
qed

lemma rx_search_literal:
  "rx_search f (map Lit k) t \<longleftrightarrow> sublist (map f k) (map f t)"
proof (induction t)
  case Nil
  then show ?case by (cases k) auto
next
  case (Cons d t)
  have "rx_search f (map Lit k) (d # t)
      \<longleftrightarrow> rx_match_here f (map Lit k) (d # t) \<or> rx_search f (map Lit k) t"
    by simp
  also have "\<dots> \<longleftrightarrow> prefix (map f k) (map f (d # t)) \<or> sublist (map f k) (map f t)"
    using Cons.IH by (simp only: rx_match_here_literal)
  also have "\<dots> \<longleftrightarrow> sublist (map f k) (map f (d # t))"
    by (simp add: sublist_Cons_right)
  finally show ?case .
qed

lemma regex_i_literal:
  assumes "list_all (\<lambda>c. \<not> rx_meta c) (code_points p)"
  shows "regex_i L p = Some (\<lambda>field. sublist (map (caseless L) (code_points p))
                                          (map (caseless L) (code_points field)))"
  using rx_compile_literal [OF assms] by (simp add: regex_i_def rx_search_literal)

lemma title_regex_literal:
  assumes "list_all (\<lambda>c. \<not> rx_meta c) k"
  shows "\<exists>rx. title_regex L k = Some rx \<and>
           (\<forall>c. Conversation_match rx c = spec_filter (caseless L) (bson_string k) c)"
proof (cases "k = []")
  case True
  then show ?thesis
    by (simp add: title_regex_def Conversation_match_def spec_filter_def)
next
  case False
  then show ?thesis
    using regex_i_literal [OF no_meta_pattern [OF assms], of L]
    by (simp add: title_regex_def Conversation_match_def spec_filter_def)
qed

lemma title_regex_Some:
  assumes "title_regex L k = Some rx"
  shows "Conversation_match rx c \<longleftrightarrow>
           \<not> c_isDeleted c \<and>
           (k = [] \<or> (\<exists>test. regex_i L (bson_string k) = Some test \<and> test (c_title c)))"
  using assms
  by (auto simp: title_regex_def Conversation_match_def split: if_splits option.splits)

lemma listConversations_Inr:
  assumes "listConversations L q w = Inr r"
  shows "\<exists>rx. title_regex L (keyword_of q) = Some rx \<and>
           0 \<le> to_double (to_double (page_of q - 1) * limit_of q) \<and>
           r = success
             \<lparr>l_list = map (enrich w) (limit_docs (limit_of q)
                 (drop (nat (to_double (to_double (page_of q - 1) * limit_of q)))
                   (sort_key (\<lambda>c. - int (c_updatedAt c))
                      (filter (Conversation_match rx) (conversations w))))),
              l_pagination = \<lparr>p_page = page_of q, p_limit = limit_of q,
                 p_total = int (length (filter (Conversation_match rx) (conversations w))),
                 p_hasMore = (to_double (page_of q * limit_of q)
                    < int (length (filter (Conversation_match rx) (conversations w))))\<rparr>\<rparr>"
  using assms
  by (auto simp: listConversations_def Let_def Conversation_find_def
        Conversation_countDocuments_def split: option.splits if_splits)

lemma skip_valid:
  fixes page limit :: int
  assumes p: "1 \<le> page" and l: "1 \<le> limit" and b: "page * limit < 2 ^ 53"
  shows "to_double (to_double (page - 1) * limit) = (page - 1) * limit"
proof -
  have "page * 1 \<le> page * limit"
    using p l by (intro mult_left_mono) simp_all
  with b have pb: "page < 2 ^ 53" by simp
  have "(page - 1) * limit \<le> page * limit"
    using p l by (intro mult_right_mono) simp_all
  with b have sb: "(page - 1) * limit < 2 ^ 53" by simp
  have s0: "0 \<le> (page - 1) * limit" using p l by simp
  have d1: "to_double (page - 1) = page - 1"
    using p pb by (intro to_double_small) simp
  have d2: "to_double ((page - 1) * limit) = (page - 1) * limit"
    using s0 sb by (intro to_double_small) simp
  show ?thesis by (simp add: d1 d2)
qed

lemma listConversations_valid:
  assumes rx: "title_regex L (keyword_of q) = Some rx"
      and p: "1 \<le> page_of q" and l: "1 \<le> limit_of q" and b: "page_of q * limit_of q < 2 ^ 53"
  shows "listConversations L q w = Inr (success
             \<lparr>l_list = map (enrich w) (take (nat (limit_of q))
                 (drop (nat ((page_of q - 1) * limit_of q))
                   (sort_key (\<lambda>c. - int (c_updatedAt c))
                      (filter (Conversation_match rx) (conversations w))))),
              l_pagination = \<lparr>p_page = page_of q, p_limit = limit_of q,
                 p_total = int (length (filter (Conversation_match rx) (conversations w))),
                 p_hasMore = (page_of q * limit_of q
                    < int (length (filter (Conversation_match rx) (conversations w))))\<rparr>\<rparr>)"
proof -
  have l100: "limit_of q \<le> 100" by (simp add: limit_of_def)
  have "page_of q * 1 \<le> page_of q * limit_of q"
    using p l by (intro mult_left_mono) simp_all
  with b have pb: "page_of q < 2 ^ 53" by simp
  have "(page_of q - 1) * limit_of q \<le> page_of q * limit_of q"
    using p l by (intro mult_right_mono) simp_all
  with b have sb: "(page_of q - 1) * limit_of q < 2 ^ 53" by simp
  have s0: "0 \<le> (page_of q - 1) * limit_of q" using p l by simp
  have d1: "to_double (page_of q - 1) = page_of q - 1"
    using p pb by (intro to_double_small) simp
  have d2: "to_double ((page_of q - 1) * limit_of q) = (page_of q - 1) * limit_of q"
    using s0 sb by (intro to_double_small) simp
  have "0 \<le> page_of q * limit_of q" using p l by simp
  then have d3: "to_double (page_of q * limit_of q) = page_of q * limit_of q"
    using b by (intro to_double_small) simp
  have big: "\<not> 2 ^ 63 \<le> (page_of q - 1) * limit_of q" using sb by simp
  have lim: "\<not> 2 ^ 63 \<le> \<bar>limit_of q\<bar>" using l l100 by simp
  show ?thesis
    unfolding listConversations_def Let_def rx d1 d2 d3
    using s0 big lim l
    by (simp add: Conversation_find_def limit_docs_def Conversation_countDocuments_def
          not_less [symmetric])
qed

text \<open>
  C6. Whenever the listing responds, it does so with status 200 and code 0; \<open>page\<close>
  and \<open>limit\<close> of the pagination object are the page and the limit read from the
  request; \<open>total\<close> is the number of conversations that are not deleted and, for a
  non-empty keyword, whose title the keyword matches as a pattern, whatever the page
  and the limit; and \<open>hasMore\<close> is true exactly when \<open>page * limit < total\<close>, the
  product being the product of doubles, which is the exact product for every store of
  at most \<open>2^53\<close> conversations.
\<close>

theorem listConversations_pagination:
  assumes "listConversations L q w = Inr r"
  shows "\<exists>d. r = \<lparr>r_status = 200, r_code = 0, r_data = Some d\<rparr> \<and>
           p_page (l_pagination d) = page_of q \<and>
           p_limit (l_pagination d) = limit_of q \<and>
           p_total (l_pagination d) =
             int (length (filter
               (\<lambda>c. \<not> c_isDeleted c \<and>
                    (keyword_of q = [] \<or>
                     (\<exists>test. regex_i L (bson_string (keyword_of q)) = Some test \<and>
                        test (c_title c))))
               (conversations w))) \<and>
           p_hasMore (l_pagination d)
             = (to_double (page_of q * limit_of q) < p_total (l_pagination d)) \<and>
           (p_total (l_pagination d) \<le> 2 ^ 53 \<longrightarrow>
              p_hasMore (l_pagination d)
                = (page_of q * limit_of q < p_total (l_pagination d)))"
proof -
  from listConversations_Inr [OF assms] obtain rx where
    rx: "title_regex L (keyword_of q) = Some rx" and
    r: "r = success
             \<lparr>l_list = map (enrich w) (limit_docs (limit_of q)
                 (drop (nat (to_double (to_double (page_of q - 1) * limit_of q)))
                   (sort_key (\<lambda>c. - int (c_updatedAt c))
                      (filter (Conversation_match rx) (conversations w))))),
              l_pagination = \<lparr>p_page = page_of q, p_limit = limit_of q,
                 p_total = int (length (filter (Conversation_match rx) (conversations w))),
                 p_hasMore = (to_double (page_of q * limit_of q)
                    < int (length (filter (Conversation_match rx) (conversations w))))\<rparr>\<rparr>"
    by blast
  have eq: "Conversation_match rx = (\<lambda>c. \<not> c_isDeleted c \<and>
                    (keyword_of q = [] \<or>
                     (\<exists>test. regex_i L (bson_string (keyword_of q)) = Some test \<and>
                        test (c_title c))))"
    using title_regex_Some [OF rx] by (intro ext) simp
  show ?thesis
    unfolding r success_def eq [symmetric]
    by (simp add: to_double_less)
qed

lemma set_limit_docs: "set (limit_docs m xs) \<subseteq> set xs"
  by (auto simp: limit_docs_def dest: in_set_takeD)

text \<open>
  C5, as amended. For a keyword with no regular-expression metacharacter: whenever
  the listing responds, \<open>total\<close> counts, and the list holds only, the conversations
  that are not deleted and whose title has the keyword as a substring up to the case
  folding of the store's option \<open>i\<close> (every conversation that is not deleted for an
  empty keyword), each listed with its own id, session id, title and \<open>updatedAt\<close>. For
  a page and a limit of at least 1 (with \<open>page * limit < 2^53\<close>) the listing does respond,
  and the list is these conversations sorted by \<open>updatedAt\<close> descending, the first
  \<open>(page - 1) * limit\<close> skipped and at most \<open>limit\<close> taken. The keyword is compared as
  the store receives it, which is the keyword itself when it is well-formed UTF-16.
\<close>

theorem listConversations_keyword:
  assumes nm: "list_all (\<lambda>c. \<not> rx_meta c) (keyword_of q)"
  shows "(\<forall>r. listConversations L q w = Inr r \<longrightarrow>
            (\<exists>d P. r = \<lparr>r_status = 200, r_code = 0, r_data = Some d\<rparr> \<and>
               p_total (l_pagination d) = int (length (filter
                  (spec_filter (caseless L) (bson_string (keyword_of q))) (conversations w))) \<and>
               map li_id (l_list d) = map c_id P \<and>
               map li_sessionId (l_list d) = map c_sessionId P \<and>
               map li_title (l_list d) = map c_title P \<and>
               map li_updatedAt (l_list d) = map c_updatedAt P \<and>
               set P \<subseteq> {c \<in> set (conversations w).
                  spec_filter (caseless L) (bson_string (keyword_of q)) c} \<and>
               (1 \<le> page_of q \<and> 1 \<le> limit_of q \<and> page_of q * limit_of q < 2 ^ 53 \<longrightarrow>
                  P = take (nat (limit_of q)) (drop (nat ((page_of q - 1) * limit_of q))
                        (sort_key (\<lambda>c. - int (c_updatedAt c))
                           (filter (spec_filter (caseless L) (bson_string (keyword_of q)))
                              (conversations w)))))))
       \<and> (1 \<le> page_of q \<and> 1 \<le> limit_of q \<and> page_of q * limit_of q < 2 ^ 53 \<longrightarrow>
            (\<exists>r. listConversations L q w = Inr r))
       \<and> (well_formed (keyword_of q) \<longrightarrow> bson_string (keyword_of q) = keyword_of q)"
proof -
  let ?F = "spec_filter (caseless L) (bson_string (keyword_of q))"
  from title_regex_literal [OF nm, of L] obtain rx where
    rx: "title_regex L (keyword_of q) = Some rx" and
    eq: "Conversation_match rx = ?F"
    by auto
  have A: "\<exists>d P. r = \<lparr>r_status = 200, r_code = 0, r_data = Some d\<rparr> \<and>
               p_total (l_pagination d) = int (length (filter ?F (conversations w))) \<and>
               map li_id (l_list d) = map c_id P \<and>
               map li_sessionId (l_list d) = map c_sessionId P \<and>
               map li_title (l_list d) = map c_title P \<and>
               map li_updatedAt (l_list d) = map c_updatedAt P \<and>
               set P \<subseteq> {c \<in> set (conversations w). ?F c} \<and>
               (1 \<le> page_of q \<and> 1 \<le> limit_of q \<and> page_of q * limit_of q < 2 ^ 53 \<longrightarrow>
                  P = take (nat (limit_of q)) (drop (nat ((page_of q - 1) * limit_of q))
                        (sort_key (\<lambda>c. - int (c_updatedAt c)) (filter ?F (conversations w)))))"
    if run: "listConversations L q w = Inr r" for r
  proof -
    let ?S = "sort_key (\<lambda>c. - int (c_updatedAt c)) (filter ?F (conversations w))"
    let ?P = "limit_docs (limit_of q)
                 (drop (nat (to_double (to_double (page_of q - 1) * limit_of q))) ?S)"
    let ?d = "\<lparr>l_list = map (enrich w) ?P,
              l_pagination = \<lparr>p_page = page_of q, p_limit = limit_of q,
                 p_total = int (length (filter ?F (conversations w))),
                 p_hasMore = (to_double (page_of q * limit_of q)
                    < int (length (filter ?F (conversations w))))\<rparr>\<rparr>"
    from listConversations_Inr [OF run] rx eq have r: "r = success ?d"
      by auto
    have sub: "set ?P \<subseteq> {c \<in> set (conversations w). ?F c}"
    proof -
      have "set ?P \<subseteq> set ?S"
        using set_limit_docs set_drop_subset by (rule order_trans)
      then show ?thesis by auto
    qed
    have ex: "?P = take (nat (limit_of q)) (drop (nat ((page_of q - 1) * limit_of q)) ?S)"
      if v: "1 \<le> page_of q \<and> 1 \<le> limit_of q \<and> page_of q * limit_of q < 2 ^ 53"
    proof -
      from v have p: "1 \<le> page_of q" and l: "1 \<le> limit_of q"
        and b: "page_of q * limit_of q < 2 ^ 53" by auto
      from skip_valid [OF p l b] l show ?thesis
        by (simp add: limit_docs_def)
    qed
    show ?thesis
      apply (rule exI [of _ ?d], rule exI [of _ ?P])
      using r sub ex by (simp add: success_def enrich_def comp_def)
  qed
  have B: "\<exists>r. listConversations L q w = Inr r"
    if "1 \<le> page_of q \<and> 1 \<le> limit_of q \<and> page_of q * limit_of q < 2 ^ 53"
    using listConversations_valid [OF rx, of w] that by blast
  have C: "well_formed (keyword_of q) \<longrightarrow> bson_string (keyword_of q) = keyword_of q"
    by (simp add: well_formed_bson_string)
  from A B C show ?thesis by blast
qed

lemma parseInt_examples:
  "parseInt (js ''undefined'') = None"
  "parseInt (js ''abc'') = None"
  "parseInt (js ''0'') = Some 0"
  "parseInt (js ''1'') = Some 1"
  "parseInt (js ''2'') = Some 2"
  "parseInt (js ''10'') = Some 10"
  "parseInt (js ''20'') = Some 20"
  "parseInt (js ''500'') = Some 500"
  "parseInt (js ''-1'') = Some (- 1)"
  "parseInt (js ''-5'') = Some (- 5)"
  unfolding parseInt_def Let_def js_def
  by (simp_all add: parse_digits_def digit_value_def is_whitespace_def to_double_def)

section \<open>Thread order and orphan attachments\<close>

lemma before_decomp: "before a b xs \<Longrightarrow> \<exists>as bs cs. xs = as @ a # bs @ b # cs"
proof (induction xs)
  case Nil
  then show ?case by simp
next
  case (Cons y ys)
  from Cons.prems consider "y = a" "b \<in> set ys" | "before a b ys" by auto
  then show ?case
  proof cases
    case 1
    then obtain bs cs where "ys = bs @ b # cs" by (auto simp: in_set_conv_decomp)
    with 1 have "y # ys = [] @ a # bs @ b # cs" by simp
    then show ?thesis by blast
  next
    case 2
    with Cons.IH obtain as bs cs where "ys = as @ a # bs @ b # cs" by blast
    then have "y # ys = (y # as) @ a # bs @ b # cs" by simp
    then show ?thesis by blast
  qed
qed

lemma before_append_pair: "before a b (xs @ a # b # ys)"
  by (induction xs) auto

lemma before_filter: "before a b xs \<Longrightarrow> P a \<Longrightarrow> P b \<Longrightarrow> before a b (filter P xs)"
  by (induction xs) auto

lemma before_insort: "before a b xs \<Longrightarrow> before a b (insort_key f x xs)"
  by (induction xs) (auto simp: set_insort_key)

lemma insort_before: "b \<in> set xs \<Longrightarrow> f a \<le> f b \<Longrightarrow> before a b (insort_key f a xs)"
  by (induction xs) auto

lemma before_sort_key:
  "before a b xs \<Longrightarrow> f a \<le> f b \<Longrightarrow> before a b (sort_key f xs)"
proof (induction xs)
  case Nil
  then show ?case by simp
next
  case (Cons y ys)
  from Cons.prems(1) consider "y = a" "b \<in> set ys" | "before a b ys" by auto
  then show ?case
  proof cases
    case 1
    then show ?thesis using Cons.prems(2) by (simp add: insort_before)
  next
    case 2
    then show ?thesis using Cons by (simp add: before_insort)
  qed
qed

lemma populate_ids:
  "map a_id (populate as ids) = filter (\<lambda>i. i \<in> a_id ` set as) ids"
proof (induction ids)
  case Nil
  then show ?case by (simp add: populate_def List.map_filter_simps)
next
  case (Cons i ids)
  show ?case
  proof (cases "find (\<lambda>a. a_id a = i) as")
    case None
    then have "i \<notin> a_id ` set as" by (auto simp: find_None_iff)
    with None Cons show ?thesis by (simp add: populate_def List.map_filter_simps)
  next
    case (Some a)
    then have "a \<in> set as" "a_id a = i"
      by (auto simp: find_Some_iff)
    with Some Cons show ?thesis by (auto simp: populate_def List.map_filter_simps)
  qed
qed

lemma populate_subset: "set (populate as ids) \<subseteq> set as"
proof (induction ids)
  case Nil
  then show ?case by (simp add: populate_def List.map_filter_simps)
next
  case (Cons i ids)
  show ?case
  proof (cases "find (\<lambda>a. a_id a = i) as")
    case None
    with Cons show ?thesis by (simp add: populate_def List.map_filter_simps)
  next
    case (Some a)
    then have "a \<in> set as" by (auto simp: find_Some_iff)
    with Some Cons show ?thesis by (simp add: populate_def List.map_filter_simps)
  qed
qed

lemma sendTurn_success_messages:
  assumes run: "sendTurn L e b w = (r, w')" and ok: "r_code r = 0"
  shows "\<exists>um rm sid d s c. messages w' = messages w @ [um, rm] \<and>
           r_data r = Some d \<and> b_message b = JStr s \<and>
           castString (b_sessionId b) = Inr (Some sid) \<and>
           m_sessionId um = Some (bson_string sid) \<and> m_sessionId rm = Some (bson_string sid) \<and>
           m_role um = User \<and> m_role rm = Gemini3 \<and>
           m_content um = Some (bson_string s) \<and>
           castString (d_content d) = Inr c \<and> m_content rm = map_option bson_string c \<and>
           m_id rm = d_messageId d \<and> m_createdAt rm = d_createdAt d \<and>
           m_id um \<noteq> m_id rm \<and>
           m_createdAt um \<le> m_createdAt rm"
proof -
  let ?atts = "case b_attachments b of JUndefined \<Rightarrow> JArr [] | v \<Rightarrow> v"
  from sendTurn_success [OF run ok] obtain dd where ts: "truthy (b_sessionId b)"
    and rd: "r = success dd"
    and ct: "chat_try L e (b_sessionId b) (b_message b) ?atts w = (Inr dd, w')"
    by blast
  from chat_try_Inr [OF ct] obtain ids um w1 dt t rm w3 s where
    mc: "Message_create L (b_sessionId b) User (b_message b) ids None w = Inr (um, w1)" and
    mc2: "Message_create L (b_sessionId b) Gemini3 (js_or t (JStr NO_REPLY)) []
            (Some (js ''gemini-1.5-pro''))
            (w1\<lparr>gateway_log := gateway_log w1 @ [b_message b], clock := clock w1 + latency e\<rparr>)
            = Inr (rm, w3)" and
    str: "b_message b = JStr s" and
    up: "Conversation_updateOne (b_sessionId b) (clock w3) (take 30 s) w3 = Inr w'" and
    dd: "dd = \<lparr>d_sessionId = b_sessionId b, d_messageId = m_id rm, d_role = Gemini3,
                d_content = js_or t (JStr NO_REPLY), d_createdAt = m_createdAt rm\<rparr>"
    by blast
  from mc str obtain s0 where cs: "castString (b_sessionId b) = Inr s0"
    and w1: "messages w1 = messages w @ [um]" "clock w1 = clock w" "next_id w1 = Suc (next_id w)"
    and um: "m_sessionId um = map_option bson_string s0" "m_role um = User"
            "m_createdAt um = clock w" "m_content um = Some (bson_string s)" "m_id um = next_id w"
    by (auto simp: Message_create_Inr)
  from castString_truthy [OF ts cs] obtain sid where s0: "s0 = Some sid" by blast
  from mc2 cs obtain c where w3: "messages w3 = messages w1 @ [rm]"
    and rm: "m_sessionId rm = map_option bson_string s0" "m_role rm = Gemini3"
            "m_createdAt rm = clock w1 + latency e"
            "castString (js_or t (JStr NO_REPLY)) = Inr c" "m_content rm = map_option bson_string c"
            "m_id rm = next_id w1"
    by (auto simp: Message_create_Inr)
  from Conversation_updateOne_messages [OF up] have "messages w' = messages w @ [um, rm]"
    using w1 w3 by simp
  with cs s0 um rm w1 rd dd str show ?thesis by (auto simp: success_def)
qed

text \<open>
  C8. The thread of a session is answered with status 200 and code 0. Its entries
  are, one for one, the messages of that session in non-decreasing \<open>createdAt\<close> order:
  each entry carries the \<open>messageId\<close>, role, content and \<open>createdAt\<close> of its message.
  The attachments of each entry are the \<open>{fileId, fileName, url}\<close> triples of the
  attachments that the message's ids refer to, in the order of the ids; an id that no
  attachment has contributes no entry. A session with no message gives the empty list.
  In any world whose messages extend those left by a successful chat turn on the
  session, the thread lists an entry with the role \<open>user\<close> and the turn's text before
  an entry with the role \<open>gemini3\<close> and the \<open>messageId\<close>, content and \<open>createdAt\<close> that
  the turn returned.
\<close>

theorem getThread_ordered:
  shows "\<exists>S items. getThread PORT sid w
             = \<lparr>r_status = 200, r_code = 0, r_data = Some items\<rparr> \<and>
           mset S = mset (filter (\<lambda>m. m_sessionId m = Some (bson_string sid)) (messages w)) \<and>
           sorted (map m_createdAt S) \<and>
           map t_messageId items = map m_id S \<and>
           map t_role items = map m_role S \<and>
           map t_content items = map m_content S \<and>
           map t_createdAt items = map m_createdAt S \<and>
           sorted (map t_createdAt items) \<and>
           map (\<lambda>item. map ta_fileId (t_attachments item)) items
             = map (\<lambda>m. filter (\<lambda>i. i \<in> a_id ` set (attachments w)) (m_attachments m)) S \<and>
           (\<forall>item \<in> set items. \<forall>ta \<in> set (t_attachments item).
              \<exists>a \<in> set (attachments w).
                 ta = \<lparr>ta_fileId = a_id a, ta_fileName = a_fileName a,
                       ta_url = js ''http://localhost:'' @ PORT @ a_filePath a\<rparr>) \<and>
           ((\<forall>m \<in> set (messages w). m_sessionId m \<noteq> Some (bson_string sid)) \<longrightarrow> items = []) \<and>
           (\<forall>L e b w0 r w1 later.
              sendTurn L e b w0 = (r, w1) \<and> r_code r = 0 \<and>
              castString (b_sessionId b) = Inr (Some sid) \<and>
              messages w = messages w1 @ later \<longrightarrow>
              (\<exists>d s c as iu bs ir cs.
                 r_data r = Some d \<and> b_message b = JStr s \<and>
                 castString (d_content d) = Inr c \<and>
                 items = as @ iu # bs @ ir # cs \<and>
                 t_role iu = User \<and> t_content iu = Some (bson_string s) \<and>
                 t_role ir = Gemini3 \<and> t_content ir = map_option bson_string c \<and>
                 t_messageId ir = d_messageId d \<and> t_createdAt ir = d_createdAt d \<and>
                 t_messageId iu \<noteq> t_messageId ir \<and>
                 t_createdAt iu \<le> t_createdAt ir))"
proof -
  let ?S = "Message_find sid w"
  let ?items = "map (thread_entry PORT w) ?S"
  have 1: "getThread PORT sid w = \<lparr>r_status = 200, r_code = 0, r_data = Some ?items\<rparr>"
    by (simp add: getThread_def success_def)
  have 2: "mset ?S = mset (filter (\<lambda>m. m_sessionId m = Some (bson_string sid)) (messages w))"
    by (simp add: Message_find_def)
  have 3: "sorted (map m_createdAt ?S)"
    by (simp add: Message_find_def)
  have 4: "map t_messageId ?items = map m_id ?S" "map t_role ?items = map m_role ?S"
    "map t_content ?items = map m_content ?S" "map t_createdAt ?items = map m_createdAt ?S"
    by (simp_all add: thread_entry_def comp_def)
  have s4: "sorted (map t_createdAt ?items)"
    unfolding 4(4) by (rule 3)
  have 5: "map ta_fileId (t_attachments (thread_entry PORT w m))
             = filter (\<lambda>i. i \<in> a_id ` set (attachments w)) (m_attachments m)" for m
    using populate_ids [of "attachments w" "m_attachments m"]
    by (simp add: thread_entry_def comp_def)
  have s5: "map (\<lambda>item. map ta_fileId (t_attachments item)) ?items
             = map (\<lambda>m. filter (\<lambda>i. i \<in> a_id ` set (attachments w)) (m_attachments m)) ?S"
    by (simp add: comp_def 5)
  have 6: "\<exists>a \<in> set (attachments w).
              ta = \<lparr>ta_fileId = a_id a, ta_fileName = a_fileName a,
                    ta_url = js ''http://localhost:'' @ PORT @ a_filePath a\<rparr>"
    if "ta \<in> set (t_attachments (thread_entry PORT w m))" for ta m
    using that populate_subset [of "attachments w" "m_attachments m"]
    by (auto simp: thread_entry_def file_url_def)
  have s6: "\<forall>item \<in> set ?items. \<forall>ta \<in> set (t_attachments item).
              \<exists>a \<in> set (attachments w).
                 ta = \<lparr>ta_fileId = a_id a, ta_fileName = a_fileName a,
                       ta_url = js ''http://localhost:'' @ PORT @ a_filePath a\<rparr>"
    using 6 by auto
  have 7: "?items = []" if "\<forall>m \<in> set (messages w). m_sessionId m \<noteq> Some (bson_string sid)"
    using that by (simp add: Message_find_def filter_empty_conv [THEN iffD2])
  have 8: "\<exists>d s c as iu bs ir cs.
                 r_data r = Some d \<and> b_message b = JStr s \<and>
                 castString (d_content d) = Inr c \<and>
                 ?items = as @ iu # bs @ ir # cs \<and>
                 t_role iu = User \<and> t_content iu = Some (bson_string s) \<and>
                 t_role ir = Gemini3 \<and> t_content ir = map_option bson_string c \<and>
                 t_messageId ir = d_messageId d \<and> t_createdAt ir = d_createdAt d \<and>
                 t_messageId iu \<noteq> t_messageId ir \<and>
                 t_createdAt iu \<le> t_createdAt ir"
    if run: "sendTurn L e b w0 = (r, w1)" and ok: "r_code r = 0"
      and cs: "castString (b_sessionId b) = Inr (Some sid)"
      and later: "messages w = messages w1 @ later"
    for L e b w0 r w1 later
  proof -
    from sendTurn_success_messages [OF run ok] cs obtain um rm d s c where
      m: "messages w1 = messages w0 @ [um, rm]" and
      d: "r_data r = Some d" "b_message b = JStr s" "castString (d_content d) = Inr c" and
      ss: "m_sessionId um = Some (bson_string sid)" "m_sessionId rm = Some (bson_string sid)" and
      rl: "m_role um = User" "m_role rm = Gemini3" and
      cn: "m_content um = Some (bson_string s)" "m_content rm = map_option bson_string c" and
      id: "m_id rm = d_messageId d" "m_createdAt rm = d_createdAt d" "m_id um \<noteq> m_id rm" and
      le: "m_createdAt um \<le> m_createdAt rm"
      by auto
    have "before um rm (messages w)"
      using m later before_append_pair [of um rm "messages w0" later] by simp
    then have "before um rm ?S"
      unfolding Message_find_def using ss le
      by (intro before_sort_key before_filter)
    from before_decomp [OF this] obtain as bs cs where S: "?S = as @ um # bs @ rm # cs"
      by blast
    let ?f = "thread_entry PORT w"
    have "?items = map ?f as @ ?f um # map ?f bs @ ?f rm # map ?f cs"
      by (simp add: S)
    moreover have "t_role (?f um) = User" "t_content (?f um) = Some (bson_string s)"
      "t_role (?f rm) = Gemini3" "t_content (?f rm) = map_option bson_string c"
      "t_messageId (?f rm) = d_messageId d" "t_createdAt (?f rm) = d_createdAt d"
      "t_messageId (?f um) \<noteq> t_messageId (?f rm)"
      "t_createdAt (?f um) \<le> t_createdAt (?f rm)"
      using rl cn id le by (simp_all add: thread_entry_def)
    ultimately show ?thesis using d by blast
  qed
  show ?thesis
    apply (rule exI [of _ ?S], rule exI [of _ ?items])
    using 1 2 3 4 s4 s5 s6 7 8 by (intro conjI allI impI) blast+
qed

lemma chat_try_attachments: "attachments (snd (chat_try L e sid msg atts w)) = attachments w"
  unfolding chat_try_def Let_def
  by (auto split: sum.splits prod.splits axios_result.splits
           simp: Message_create_Inr Conversation_updateOne_def Let_def)

lemma sendTurn_attachments: "attachments (snd (sendTurn L e b w)) = attachments w"
proof (cases "truthy (b_sessionId b) \<and> truthy (b_message b)")
  case True
  then show ?thesis
    by (simp add: sendTurn_chat_try chat_try_attachments)
next
  case False
  then show ?thesis
    by (auto simp: sendTurn_def Let_def)
qed

lemma upload_attachments:
  "attachments (snd (upload PORT req w)) = attachments w \<or>
   (\<exists>a. attachments (snd (upload PORT req w)) = attachments w @ [a] \<and> a_messageId a = None)"
  by (auto simp: upload_def Attachment_create_def Let_def split: option.splits)

text \<open>
  C10. In every world the server can reach, no attachment has a \<open>messageId\<close>: the
  upload creates attachments without one, and no request changes an attachment.
\<close>

theorem attachments_orphan:
  assumes "reachable L w"
  shows "\<forall>a \<in> set (attachments w). a_messageId a = None"
  using assms
proof (induction rule: reachable.induct)
  case (start t)
  then show ?case by (simp add: init_def)
next
  case (chat w e b)
  then show ?case by (simp add: sendTurn_attachments)
next
  case (uploaded w PORT req)
  with upload_attachments [of PORT req w] show ?case by auto
next
  case (tick w d)
  then show ?case by simp
qed

section \<open>Evaluation of the examples\<close>

lemmas chat_eval =
  sendTurn_def chat_try_def Message_create_def Conversation_updateOne_def
  candidate_text_provider_response js_or_def env_reply_def env_down_def chat_def init_def
  js_def Let_def hex_digit_def failure_def success_def example_library_def
  is_high_def is_low_def bson_string_NO_REPLY

lemma hello_down:
  "sendTurn example_library env_down hello (init 100) =
   (\<lparr>r_status = 500, r_code = 500, r_data = None\<rparr>,
    \<lparr>conversations = [],
     messages = [\<lparr>m_id = 0, m_sessionId = Some (js ''s1''), m_role = User,
        m_content = Some (js ''hello''), m_attachments = [], m_senderAi = None,
        m_createdAt = 100\<rparr>],
     attachments = [], next_id = 1, clock = 107, gateway_log = [JStr (js ''hello'')]\<rparr>)"
  by (simp add: chat_eval hello_def)


lemma world1_eval:
  "sendTurn example_library (env_reply (JStr (js ''Hi''))) turn_plan (init 100) =
   (\<lparr>r_status = 200, r_code = 0, r_data = Some
       \<lparr>d_sessionId = JStr (js ''s1''), d_messageId = 1, d_role = Gemini3,
        d_content = JStr (js ''Hi''), d_createdAt = 107\<rparr>\<rparr>,
    \<lparr>conversations = [\<lparr>c_id = 2, c_sessionId = Some (js ''s1''), c_userId = None,
        c_title = js ''Project Plan for the third qua'', c_createdAt = 107, c_updatedAt = 107,
        c_isDeleted = False\<rparr>],
     messages = [\<lparr>m_id = 0, m_sessionId = Some (js ''s1''), m_role = User,
        m_content = Some (js ''Project Plan for the third quarter''), m_attachments = [],
        m_senderAi = None, m_createdAt = 100\<rparr>,
       \<lparr>m_id = 1, m_sessionId = Some (js ''s1''), m_role = Gemini3,
        m_content = Some (js ''Hi''), m_attachments = [],
        m_senderAi = Some (js ''gemini-1.5-pro''), m_createdAt = 107\<rparr>],
     attachments = [], next_id = 3, clock = 107,
     gateway_log = [JStr (js ''Project Plan for the third quarter'')]\<rparr>)"
  by (simp add: chat_eval turn_plan_def)

lemma world2_eval:
  "sendTurn example_library (env_reply (JStr (js ''Ok''))) turn_b world1 =
   (\<lparr>r_status = 200, r_code = 0, r_data = Some
       \<lparr>d_sessionId = JStr (js ''s1''), d_messageId = 4, d_role = Gemini3,
        d_content = JStr (js ''Ok''), d_createdAt = 114\<rparr>\<rparr>,
    \<lparr>conversations = [\<lparr>c_id = 2, c_sessionId = Some (js ''s1''), c_userId = None,
        c_title = js ''plan b'', c_createdAt = 107, c_updatedAt = 114,
        c_isDeleted = False\<rparr>],
     messages = [\<lparr>m_id = 0, m_sessionId = Some (js ''s1''), m_role = User,
        m_content = Some (js ''Project Plan for the third quarter''), m_attachments = [],
        m_senderAi = None, m_createdAt = 100\<rparr>,
       \<lparr>m_id = 1, m_sessionId = Some (js ''s1''), m_role = Gemini3,
        m_content = Some (js ''Hi''), m_attachments = [],
        m_senderAi = Some (js ''gemini-1.5-pro''), m_createdAt = 107\<rparr>,
       \<lparr>m_id = 3, m_sessionId = Some (js ''s1''), m_role = User,
        m_content = Some (js ''plan b''), m_attachments = [],
        m_senderAi = None, m_createdAt = 107\<rparr>,
       \<lparr>m_id = 4, m_sessionId = Some (js ''s1''), m_role = Gemini3,
        m_content = Some (js ''Ok''), m_attachments = [],
        m_senderAi = Some (js ''gemini-1.5-pro''), m_createdAt = 114\<rparr>],
     attachments = [], next_id = 5, clock = 114,
     gateway_log = [JStr (js ''Project Plan for the third quarter''), JStr (js ''plan b'')]\<rparr>)"
  unfolding world1_def world1_eval snd_conv
  by (simp add: chat_eval turn_b_def)


section \<open>Concrete instances\<close>

text \<open>
  A turn against an endpoint that is down: status 500, the user message kept and
  listed by the thread with its id, role and text, no conversation.
\<close>

theorem sendTurn_gateway_failure_witness:
  "gateway_log (snd (sendTurn example_library env_down hello (init 100))) \<noteq> gateway_log (init 100) \<and>
   axios_post env_down (b_message hello) = AxiosFailure \<and>
   fst (sendTurn example_library env_down hello (init 100))
     = \<lparr>r_status = 500, r_code = 500, r_data = None\<rparr> \<and>
   map m_role (messages (snd (sendTurn example_library env_down hello (init 100)))) = [User] \<and>
   map m_content (messages (snd (sendTurn example_library env_down hello (init 100))))
     = [Some (js ''hello'')] \<and>
   conversations (snd (sendTurn example_library env_down hello (init 100))) = [] \<and>
   map_option (map (\<lambda>i. (t_messageId i, t_role i, t_content i)))
     (r_data (getThread (js ''3001'') (js ''s1'')
        (snd (sendTurn example_library env_down hello (init 100)))))
     = Some [(0, User, Some (js ''hello''))]"
proof -
  have h1: "gateway_log (snd (sendTurn example_library env_down hello (init 100)))
      \<noteq> gateway_log (init 100)"
    unfolding hello_down by (simp add: init_def)
  have h2: "axios_post env_down (b_message hello) = AxiosFailure"
    by (simp add: env_down_def)
  from sendTurn_gateway_failure [OF h1 h2, of "js ''3001''"]
  obtain userMsg sid cnt items item where
    c: "fst (sendTurn example_library env_down hello (init 100))
          = \<lparr>r_status = 500, r_code = 500, r_data = None\<rparr>"
    and m: "messages (snd (sendTurn example_library env_down hello (init 100)))
          = messages (init 100) @ [userMsg]"
    and u: "m_role userMsg = User"
    and k: "conversations (snd (sendTurn example_library env_down hello (init 100)))
          = conversations (init 100)"
    by (elim exE conjE)
  have r: "map_option (map (\<lambda>i. (t_messageId i, t_role i, t_content i)))
     (r_data (getThread (js ''3001'') (js ''s1'')
        (snd (sendTurn example_library env_down hello (init 100)))))
     = Some [(0, User, Some (js ''hello''))]"
    unfolding hello_down
    by (simp add: getThread_def success_def Message_find_def thread_entry_def js_def
          is_high_def is_low_def)
  have n: "map m_content (messages (snd (sendTurn example_library env_down hello (init 100))))
     = [Some (js ''hello'')]"
    unfolding hello_down by simp
  from m u have "map m_role (messages (snd (sendTurn example_library env_down hello (init 100))))
      = [User]"
    by (simp add: init_def)
  with h1 h2 c k r n show ?thesis by (simp add: init_def)
qed

text \<open>
  A request with an empty session id: status 400, and the store unchanged.
\<close>

theorem sendTurn_validation_witness:
  "\<not> truthy (b_sessionId (chat [] ''hello'' JUndefined)) \<and>
   sendTurn example_library env_down (chat [] ''hello'' JUndefined) (init 100)
     = (\<lparr>r_status = 400, r_code = 400, r_data = None\<rparr>, init 100)"
  using sendTurn_validation [of "chat [] ''hello'' JUndefined" example_library env_down "init 100"]
  by (simp add: chat_def js_def)


lemma bson_string_examples:
  "bson_string (js ''s1'') = js ''s1''"
  "bson_string (js ''hello'') = js ''hello''"
  "bson_string (js ''plan b'') = js ''plan b''"
  "bson_string (js ''Project Plan for the third qua'') = js ''Project Plan for the third qua''"
  by (simp_all add: js_def is_high_def is_low_def)

text \<open>
  Two turns on one session: a 34-character message gives a 30-character title, and
  the second message's text replaces it.
\<close>

theorem sendTurn_upsert_title_witness:
  "r_code (fst (sendTurn example_library (env_reply (JStr (js ''Hi''))) turn_plan (init 100))) = 0 \<and>
   distinct (map c_sessionId (conversations (init 100))) \<and>
   map c_title (conversations world1) = [js ''Project Plan for the third qua''] \<and>
   map c_updatedAt (conversations world1) = [clock world1] \<and>
   r_code (fst (sendTurn example_library (env_reply (JStr (js ''Ok''))) turn_b world1)) = 0 \<and>
   map c_title (conversations world2) = [js ''plan b'']"
proof -
  let ?e = "env_reply (JStr (js ''Hi''))" and ?e2 = "env_reply (JStr (js ''Ok''))"
  let ?L = example_library
  have run: "sendTurn ?L ?e turn_plan (init 100)
      = (fst (sendTurn ?L ?e turn_plan (init 100)), world1)"
    by (simp add: world1_def)
  have ok: "r_code (fst (sendTurn ?L ?e turn_plan (init 100))) = 0"
    unfolding world1_eval by simp
  have d: "distinct (map c_sessionId (conversations (init 100)))"
    by (simp add: init_def)
  have run2: "sendTurn ?L ?e2 turn_b world1 = (fst (sendTurn ?L ?e2 turn_b world1), world2)"
    by (simp add: world2_def)
  have ok2: "r_code (fst (sendTurn ?L ?e2 turn_b world1)) = 0"
    unfolding world2_eval by simp
  from sendTurn_upsert_title [OF run ok d] obtain t sid c where
    t: "b_message turn_plan = JStr t" and
    sid: "castString (b_sessionId turn_plan) = Inr (Some sid)" and
    c: "filter (\<lambda>c. c_sessionId c = Some (bson_string sid)) (conversations world1) = [c]"
       "c_title c = bson_string (take 30 t)" "c_updatedAt c = clock world1" and
    two: "\<forall>e2 b2 r2 w2.
              sendTurn ?L e2 b2 world1 = (r2, w2) \<and> r_code r2 = 0 \<and>
              castString (b_sessionId b2) = Inr (Some sid) \<longrightarrow>
              (\<exists>t2 c2. b_message b2 = JStr t2 \<and>
                 filter (\<lambda>c. c_sessionId c = Some (bson_string sid)) (conversations w2) = [c2] \<and>
                 c_title c2 = bson_string (take 30 t2) \<and>
                 (well_formed (take 30 t2) \<longrightarrow> c_title c2 = take 30 t2) \<and>
                 c_updatedAt c2 = clock w2)"
    by (elim exE conjE)
  from sid have s: "sid = js ''s1''"
    by (simp add: turn_plan_def chat_def)
  from t have t': "t = js ''Project Plan for the third quarter''"
    by (simp add: turn_plan_def chat_def)
  have tk: "take 30 t = js ''Project Plan for the third qua''"
    by (simp add: t' js_def)
  have s2: "castString (b_sessionId turn_b) = Inr (Some sid)"
    by (simp add: s turn_b_def chat_def)
  from two [rule_format, OF conjI [OF run2 conjI [OF ok2 s2]]] obtain t2 c2 where
    t2: "b_message turn_b = JStr t2" and
    c2: "filter (\<lambda>c. c_sessionId c = Some (bson_string sid)) (conversations world2) = [c2]"
        "c_title c2 = bson_string (take 30 t2)"
    by (elim exE conjE)
  from t2 have t2': "t2 = js ''plan b''"
    by (simp add: turn_b_def chat_def)
  have tk2: "take 30 t2 = js ''plan b''"
    by (simp add: t2' js_def)
  have w1: "conversations world1 = [\<lparr>c_id = 2, c_sessionId = Some (js ''s1''), c_userId = None,
        c_title = js ''Project Plan for the third qua'', c_createdAt = 107, c_updatedAt = 107,
        c_isDeleted = False\<rparr>]" "clock world1 = 107"
    unfolding world1_def world1_eval by simp_all
  have w2: "conversations world2 = [\<lparr>c_id = 2, c_sessionId = Some (js ''s1''), c_userId = None,
        c_title = js ''plan b'', c_createdAt = 107, c_updatedAt = 114,
        c_isDeleted = False\<rparr>]"
    unfolding world2_def world2_eval by simp
  from c w1 s have "map c_title (conversations world1) = [bson_string (take 30 t)]"
    "map c_updatedAt (conversations world1) = [clock world1]"
    by (auto simp: bson_string_examples)
  moreover from c2 w2 s have "map c_title (conversations world2) = [bson_string (take 30 t2)]"
    by (auto simp: bson_string_examples)
  ultimately show ?thesis
    using ok d ok2 by (simp add: tk tk2 bson_string_examples)
qed

text \<open>
  C2 as stated fails: for a text with U+1F600 at code units 30 and 31, the stored
  title ends with U+FFFD; it is neither the first 30 code units nor the first 30
  characters of the text.
\<close>

theorem sendTurn_title_split_pair_counterexample:
  "b_message chat_emoji = JStr emoji_text \<and>
   r_code (fst (sendTurn example_library (env_reply (JStr (js ''Hi''))) chat_emoji (init 100))) = 0 \<and>
   take 30 emoji_text = js ''aaaaaaaaaaaaaaaaaaaaaaaaaaaaa'' @ [0xD83D] \<and>
   map c_title (conversations
      (snd (sendTurn example_library (env_reply (JStr (js ''Hi''))) chat_emoji (init 100))))
     = [js ''aaaaaaaaaaaaaaaaaaaaaaaaaaaaa'' @ [0xFFFD]]"
  by (simp add: chat_eval chat_emoji_def emoji_text_def)

text \<open>
  C4 as stated fails: for the attachments \<open>[null, id]\<close> the stored list is \<open>[id]\<close>, not
  the given two-entry list; and the invalid id \<open>abc\<close> is not stored at all: the turn is
  answered with status 500 and nothing is stored.
\<close>

theorem sendTurn_attachments_as_is_counterexample:
  "b_attachments chat_null_id = JArr [JNull, JStr (js ''00000000000000000000002a'')] \<and>
   map m_attachments (messages
      (snd (sendTurn example_library (env_reply (JStr (js ''Hi''))) chat_null_id (init 100))))
     = [[42], []] \<and>
   b_attachments chat_bad_id = JArr [JStr (js ''abc'')] \<and>
   sendTurn example_library (env_reply (JStr (js ''Hi''))) chat_bad_id (init 100)
     = (\<lparr>r_status = 500, r_code = 500, r_data = None\<rparr>, init 100)"
  by (simp add: chat_eval chat_null_id_def chat_bad_id_def)

text \<open>
  The request with \<open>[null, id]\<close> on a store with no attachment at all: the id is
  stored. The request with the id \<open>abc\<close>: status 500 and the store unchanged.
\<close>

theorem sendTurn_attachments_filtered_witness:
  "messages (snd (sendTurn example_library env_down chat_null_id (init 100))) \<noteq> messages (init 100) \<and>
   attachments (init 100) = [] \<and>
   filter truthy [JNull, JStr (js ''00000000000000000000002a'')]
     = [JStr (js ''00000000000000000000002a'')] \<and>
   castObjectId example_library (JStr (js ''00000000000000000000002a'')) = Some 42 \<and>
   map m_attachments (messages (snd (sendTurn example_library env_down chat_null_id (init 100))))
     = [[42]] \<and>
   castObjectId example_library (JStr (js ''abc'')) = None \<and>
   sendTurn example_library env_down chat_bad_id (init 100)
     = (\<lparr>r_status = 500, r_code = 500, r_data = None\<rparr>, init 100)"
proof -
  let ?L = example_library
  let ?id = "JStr (js ''00000000000000000000002a'')"
  have e: "map m_attachments (messages (snd (sendTurn ?L env_down chat_null_id (init 100)))) = [[42]]"
    by (simp add: chat_eval chat_null_id_def)
  then have h: "messages (snd (sendTurn ?L env_down chat_null_id (init 100))) \<noteq> messages (init 100)"
    by (auto simp: init_def)
  have f: "filter truthy [JNull, ?id] = [?id]"
    by (simp add: js_def)
  have c: "castObjectId ?L ?id = Some 42"
    by (simp add: example_library_def js_def hex_digit_def)
  have n: "castObjectId ?L (JStr (js ''abc'')) = None"
    by (simp add: example_library_def js_def)
  have b: "truthy (b_sessionId chat_null_id) \<and> truthy (b_message chat_null_id) \<and>
    b_attachments chat_null_id = JArr [JNull, ?id] \<and>
    castString (b_sessionId chat_null_id) = Inr (Some (js ''s1'')) \<and>
    castString (b_message chat_null_id) = Inr (Some (js ''hello''))"
    by (simp add: chat_null_id_def chat_def js_def)
  have al: "list_all (\<lambda>v. castObjectId ?L v \<noteq> None) (filter truthy [JNull, ?id])"
    using c by (simp add: f)
  note th = sendTurn_attachments_filtered [of ?L env_down chat_null_id "init 100",
      THEN conjunct2, rule_format, OF b]
  from th [THEN conjunct1, rule_format, OF al]
  obtain um rest where "messages (snd (sendTurn ?L env_down chat_null_id (init 100)))
      = messages (init 100) @ um # rest"
      "m_attachments um = map (the \<circ> castObjectId ?L) (filter truthy [JNull, ?id])"
    by (elim exE conjE)
  have b2: "truthy (b_sessionId chat_bad_id) \<and> truthy (b_message chat_bad_id) \<and>
    b_attachments chat_bad_id = JArr [JStr (js ''abc'')] \<and>
    castString (b_sessionId chat_bad_id) = Inr (Some (js ''s1'')) \<and>
    castString (b_message chat_bad_id) = Inr (Some (js ''hello''))"
    by (simp add: chat_bad_id_def chat_def js_def)
  have nal: "\<not> list_all (\<lambda>v. castObjectId ?L v \<noteq> None) (filter truthy [JStr (js ''abc'')])"
    using n by (simp add: js_def)
  from sendTurn_attachments_filtered [of ?L env_down chat_bad_id "init 100",
      THEN conjunct2, rule_format, OF b2, THEN conjunct2, rule_format, OF nal]
  have bad: "sendTurn ?L env_down chat_bad_id (init 100)
     = (\<lparr>r_status = 500, r_code = 500, r_data = None\<rparr>, init 100)" .
  from e h f c n bad show ?thesis by (simp add: init_def)
qed

lemma world_plan_eval:
  "world_plan =
    \<lparr>conversations = [\<lparr>c_id = 2, c_sessionId = Some (js ''s1''), c_userId = None,
        c_title = js ''Project Plan'', c_createdAt = 107, c_updatedAt = 107,
        c_isDeleted = False\<rparr>],
     messages = [\<lparr>m_id = 0, m_sessionId = Some (js ''s1''), m_role = User,
        m_content = Some (js ''Project Plan''), m_attachments = [],
        m_senderAi = None, m_createdAt = 100\<rparr>,
       \<lparr>m_id = 1, m_sessionId = Some (js ''s1''), m_role = Gemini3,
        m_content = Some (js ''Hi''), m_attachments = [],
        m_senderAi = Some (js ''gemini-1.5-pro''), m_createdAt = 107\<rparr>],
     attachments = [], next_id = 3, clock = 107,
     gateway_log = [JStr (js ''Project Plan'')]\<rparr>"
  by (simp add: world_plan_def chat_eval)

lemma search_eval:
  "page_of (search k) = 1" "limit_of (search k) = 20" "keyword_of (search k) = js k"
  by (simp_all add: page_of_def limit_of_def keyword_of_def parseInt_param_def num_or_def
        search_def parseInt_examples)

lemma paged_eval:
  "page_of (paged ''1'' ''10'') = 1" "limit_of (paged ''1'' ''10'') = 10"
  "page_of (paged ''2'' ''10'') = 2" "limit_of (paged ''2'' ''10'') = 10"
  "page_of (paged ''2'' ''1'') = 2" "limit_of (paged ''2'' ''1'') = 1"
  "page_of (paged ''abc'' ''0'') = 1" "limit_of (paged ''abc'' ''0'') = 20"
  "limit_of (paged ''1'' ''500'') = 100"
  "page_of (paged ''-1'' ''20'') = - 1" "limit_of (paged ''-1'' ''20'') = 20"
  "page_of (paged ''2'' ''-5'') = 2" "limit_of (paged ''2'' ''-5'') = - 5"
  "keyword_of (paged p l) = []"
  by (simp_all add: page_of_def limit_of_def keyword_of_def parseInt_param_def num_or_def
        paged_def parseInt_examples)

lemmas list_eval =
  listConversations_def search_eval paged_eval title_regex_def regex_i_def
  Conversation_find_def Conversation_countDocuments_def Conversation_match_def limit_docs_def
  enrich_def Message_countDocuments_def rx_meta_def fold_case_def success_def
  example_library_def to_double_def is_high_def is_low_def
  js_def Let_def

lemma search_plan: "listConversations example_library (search ''plan'') world_plan = plan_listing"
  unfolding world_plan_eval by (simp add: list_eval plan_listing_def)

lemma search_PLAN: "listConversations example_library (search ''PLAN'') world_plan = plan_listing"
  unfolding world_plan_eval by (simp add: list_eval plan_listing_def)

text \<open>
  C5 as stated fails: the keyword \<open>.\<close> is not a substring of the title "Project Plan",
  and the listing returns that conversation.
\<close>

theorem listConversations_substring_counterexample:
  "listConversations example_library (search ''.'') world_plan = plan_listing \<and>
   map c_title (conversations world_plan) = [js ''Project Plan''] \<and>
   \<not> sublist (js ''.'') (js ''Project Plan'') \<and>
   \<not> spec_filter fold_case (js ''.'') (hd (conversations world_plan))"
  unfolding world_plan_eval
  by (simp add: list_eval plan_listing_def spec_filter_def sublist_code prefix_code)

text \<open>
  The keywords \<open>plan\<close> and \<open>PLAN\<close> both list the conversation titled "Project Plan".
\<close>

theorem listConversations_keyword_witness:
  "list_all (\<lambda>c. \<not> rx_meta c) (keyword_of (search ''plan'')) \<and>
   list_all (\<lambda>c. \<not> rx_meta c) (keyword_of (search ''PLAN'')) \<and>
   1 \<le> page_of (search ''plan'') \<and> 1 \<le> limit_of (search ''plan'') \<and>
   page_of (search ''plan'') * limit_of (search ''plan'') < 2 ^ 53 \<and>
   listConversations example_library (search ''plan'') world_plan = plan_listing \<and>
   listConversations example_library (search ''PLAN'') world_plan = plan_listing \<and>
   map c_title (conversations world_plan) = [js ''Project Plan''] \<and>
   map (spec_filter fold_case (js ''plan'')) (conversations world_plan) = [True] \<and>
   map (spec_filter fold_case (js ''PLAN'')) (conversations world_plan) = [True]"
proof -
  let ?L = example_library
  have h1: "list_all (\<lambda>c. \<not> rx_meta c) (keyword_of (search ''plan''))"
    and h2: "list_all (\<lambda>c. \<not> rx_meta c) (keyword_of (search ''PLAN''))"
    by (simp_all add: search_eval rx_meta_def js_def)
  have v: "1 \<le> page_of (search ''plan'') \<and> 1 \<le> limit_of (search ''plan'') \<and>
      page_of (search ''plan'') * limit_of (search ''plan'') < 2 ^ 53"
    by (simp add: search_eval)
  have k: "bson_string (keyword_of (search ''plan'')) = js ''plan''"
    "bson_string (keyword_of (search ''PLAN'')) = js ''PLAN''"
    by (simp_all add: search_eval js_def is_high_def is_low_def)
  have cl: "caseless ?L = fold_case"
    by (simp add: example_library_def)
  have p: "plan_listing = Inr (projr plan_listing)"
    "map_option (\<lambda>d. p_total (l_pagination d)) (r_data (projr plan_listing)) = Some 1"
    by (simp_all add: plan_listing_def)
  from listConversations_keyword [OF h1, of ?L world_plan, THEN conjunct2, THEN conjunct1,
      rule_format, OF v]
  obtain r where "listConversations ?L (search ''plan'') world_plan = Inr r" ..
  from listConversations_keyword [OF h1, of ?L world_plan, THEN conjunct1, rule_format,
      of "projr plan_listing"] search_plan p(1)
  obtain d P where "projr plan_listing = \<lparr>r_status = 200, r_code = 0, r_data = Some d\<rparr>"
    "p_total (l_pagination d)
       = int (length (filter (spec_filter (caseless ?L)
            (bson_string (keyword_of (search ''plan'')))) (conversations world_plan)))"
    by auto
  with p(2) k cl
  have n1: "length (filter (spec_filter fold_case (js ''plan'')) (conversations world_plan)) = 1"
    by simp
  from listConversations_keyword [OF h2, of ?L world_plan, THEN conjunct1, rule_format,
      of "projr plan_listing"] search_PLAN p(1)
  obtain d P where "projr plan_listing = \<lparr>r_status = 200, r_code = 0, r_data = Some d\<rparr>"
    "p_total (l_pagination d)
       = int (length (filter (spec_filter (caseless ?L)
            (bson_string (keyword_of (search ''PLAN'')))) (conversations world_plan)))"
    by auto
  with p(2) k cl
  have n2: "length (filter (spec_filter fold_case (js ''PLAN'')) (conversations world_plan)) = 1"
    by simp
  have one: "length (conversations world_plan) = 1"
    "map c_title (conversations world_plan) = [js ''Project Plan'']"
    unfolding world_plan_eval by simp_all
  have "map (spec_filter fold_case (js ''plan'')) (conversations world_plan) = [True]"
    using n1 one(1) by (cases "conversations world_plan") (auto split: if_splits)
  moreover have "map (spec_filter fold_case (js ''PLAN'')) (conversations world_plan) = [True]"
    using n2 one(1) by (cases "conversations world_plan") (auto split: if_splits)
  ultimately show ?thesis
    using h1 h2 v search_plan search_PLAN one(2) by simp
qed

lemma string_of_nat_100: "string_of_nat 100 = js ''100''"
  by (simp add: string_of_nat.simps js_def)

lemma world_up_eval:
  "world_up =
    \<lparr>conversations = [], messages = [],
     attachments = [\<lparr>a_id = 0, a_sessionId = None, a_messageId = None,
        a_fileName = js ''a.png'', a_fileType = js ''image/png'', a_fileSize = 10,
        a_filePath = js ''/uploads/100-a.png'', a_uploadedAt = 100\<rparr>],
     next_id = 1, clock = 100, gateway_log = []\<rparr>"
  by (simp add: world_up_def upload_def png_def allowed_def fileSize_limit_def
        Attachment_create_def init_def string_of_nat_100 Let_def)
     (simp add: js_def is_high_def is_low_def)

lemma look_eval:
  "sendTurn example_library (env_reply (JStr (js ''Hi''))) look world_up =
   (\<lparr>r_status = 200, r_code = 0, r_data = Some
       \<lparr>d_sessionId = JStr (js ''s1''), d_messageId = 2, d_role = Gemini3,
        d_content = JStr (js ''Hi''), d_createdAt = 107\<rparr>\<rparr>,
    \<lparr>conversations = [\<lparr>c_id = 3, c_sessionId = Some (js ''s1''), c_userId = None,
        c_title = js ''look'', c_createdAt = 107, c_updatedAt = 107, c_isDeleted = False\<rparr>],
     messages = [\<lparr>m_id = 1, m_sessionId = Some (js ''s1''), m_role = User,
        m_content = Some (js ''look''), m_attachments = [0, 42],
        m_senderAi = None, m_createdAt = 100\<rparr>,
       \<lparr>m_id = 2, m_sessionId = Some (js ''s1''), m_role = Gemini3,
        m_content = Some (js ''Hi''), m_attachments = [],
        m_senderAi = Some (js ''gemini-1.5-pro''), m_createdAt = 107\<rparr>],
     attachments = [\<lparr>a_id = 0, a_sessionId = None, a_messageId = None,
        a_fileName = js ''a.png'', a_fileType = js ''image/png'', a_fileSize = 10,
        a_filePath = js ''/uploads/100-a.png'', a_uploadedAt = 100\<rparr>],
     next_id = 4, clock = 107, gateway_log = [JStr (js ''look'')]\<rparr>)"
  unfolding world_up_eval
  by (simp add: chat_eval look_def)

lemma world_thread_eval:
  "world_thread =
    \<lparr>conversations = [\<lparr>c_id = 3, c_sessionId = Some (js ''s1''), c_userId = None,
        c_title = js ''look'', c_createdAt = 107, c_updatedAt = 107, c_isDeleted = False\<rparr>],
     messages = [\<lparr>m_id = 1, m_sessionId = Some (js ''s1''), m_role = User,
        m_content = Some (js ''look''), m_attachments = [0, 42],
        m_senderAi = None, m_createdAt = 100\<rparr>,
       \<lparr>m_id = 2, m_sessionId = Some (js ''s1''), m_role = Gemini3,
        m_content = Some (js ''Hi''), m_attachments = [],
        m_senderAi = Some (js ''gemini-1.5-pro''), m_createdAt = 107\<rparr>],
     attachments = [\<lparr>a_id = 0, a_sessionId = None, a_messageId = None,
        a_fileName = js ''a.png'', a_fileType = js ''image/png'', a_fileSize = 10,
        a_filePath = js ''/uploads/100-a.png'', a_uploadedAt = 100\<rparr>],
     next_id = 4, clock = 107, gateway_log = [JStr (js ''look'')]\<rparr>"
  unfolding world_thread_def look_eval by simp

lemma count15: "Conversation_countDocuments None world15 = 15"
proof -
  have "filter (Conversation_match None) (map conv_n xs) = map conv_n xs" for xs
    by (induction xs) (simp_all add: Conversation_match_def conv_n_def)
  then show ?thesis
    by (simp add: Conversation_countDocuments_def world15_def init_def)
qed

lemma page1_of_15:
  "pagination_of (listConversations example_library (paged ''1'' ''10'') world15)
     = Some \<lparr>p_page = 1, p_limit = 10, p_total = 15, p_hasMore = True\<rparr>"
  by (simp add: pagination_of_def listConversations_def paged_eval title_regex_def count15
        Conversation_find_def success_def to_double_def)

lemma page2_of_15:
  "pagination_of (listConversations example_library (paged ''2'' ''10'') world15)
     = Some \<lparr>p_page = 2, p_limit = 10, p_total = 15, p_hasMore = False\<rparr>"
  by (simp add: pagination_of_def listConversations_def paged_eval title_regex_def count15
        Conversation_find_def success_def to_double_def)

lemma bitlen_example: "bitlen 9007199254740993 = 54" "bitlen 90071992547409910 = 57"
  "bitlen 90071992547409920 = 57"
  by (simp_all add: bitlen.simps)

lemma parseInt_rounds: "parseInt (js ''9007199254740993'') = Some 9007199254740992"
  unfolding parseInt_def Let_def js_def
  by (simp add: parse_digits_def digit_value_def is_whitespace_def to_double_def bitlen_example)

lemma page_rounds:
  "page_of (paged ''9007199254740993'' ''10'') = 9007199254740992"
  "pagination_of (listConversations L (paged ''9007199254740993'' ''10'') world3)
     = Some \<lparr>p_page = 9007199254740992, p_limit = 10, p_total = 3, p_hasMore = False\<rparr>"
  by (simp_all add: page_of_def limit_of_def keyword_of_def parseInt_param_def num_or_def
        paged_def parseInt_examples parseInt_rounds pagination_of_def listConversations_def
        title_regex_def Conversation_find_def Conversation_countDocuments_def
        Conversation_match_def success_def to_double_def bitlen_example world3_def init_def
        conv_n_def Let_def)

text \<open>
  Fifteen conversations, limit 10: page 1 has more, page 2 has not. A page parameter
  above \<open>2^53\<close> is reported as the double it is read as.
\<close>

theorem listConversations_pagination_witness:
  "(\<exists>r. listConversations example_library (paged ''1'' ''10'') world15 = Inr r) \<and>
   (\<exists>r. listConversations example_library (paged ''2'' ''10'') world15 = Inr r) \<and>
   length (conversations world15) = 15 \<and>
   pagination_of (listConversations example_library (paged ''1'' ''10'') world15)
     = Some \<lparr>p_page = 1, p_limit = 10, p_total = 15, p_hasMore = True\<rparr> \<and>
   pagination_of (listConversations example_library (paged ''2'' ''10'') world15)
     = Some \<lparr>p_page = 2, p_limit = 10, p_total = 15, p_hasMore = False\<rparr> \<and>
   (\<exists>r. listConversations example_library (paged ''9007199254740993'' ''10'') world3 = Inr r) \<and>
   pagination_of (listConversations example_library (paged ''9007199254740993'' ''10'') world3)
     = Some \<lparr>p_page = 9007199254740992, p_limit = 10, p_total = 3, p_hasMore = False\<rparr>"
proof -
  let ?L = example_library
  from page_rounds(2) [of ?L] obtain r3 where
    r3: "listConversations ?L (paged ''9007199254740993'' ''10'') world3 = Inr r3"
    by (auto simp: pagination_of_def split: sum.splits)
  from listConversations_pagination [OF r3] obtain d3 where
    d3: "r3 = \<lparr>r_status = 200, r_code = 0, r_data = Some d3\<rparr>"
        "p_page (l_pagination d3) = page_of (paged ''9007199254740993'' ''10'')"
    by (elim exE conjE)
  from r3 d3 page_rounds(1) page_rounds(2) [of ?L]
  have p3: "pagination_of (listConversations ?L (paged ''9007199254740993'' ''10'') world3)
     = Some \<lparr>p_page = 9007199254740992, p_limit = 10, p_total = 3, p_hasMore = False\<rparr>"
    by simp
  from page1_of_15 obtain r where r: "listConversations ?L (paged ''1'' ''10'') world15 = Inr r"
    by (auto simp: pagination_of_def split: sum.splits)
  from page2_of_15 obtain r2 where r2: "listConversations ?L (paged ''2'' ''10'') world15 = Inr r2"
    by (auto simp: pagination_of_def split: sum.splits)
  from listConversations_pagination [OF r] obtain d where
    d: "r = \<lparr>r_status = 200, r_code = 0, r_data = Some d\<rparr>"
       "p_page (l_pagination d) = page_of (paged ''1'' ''10'')"
       "p_limit (l_pagination d) = limit_of (paged ''1'' ''10'')"
       "p_total (l_pagination d) \<le> 2 ^ 53 \<longrightarrow>
          p_hasMore (l_pagination d)
            = (page_of (paged ''1'' ''10'') * limit_of (paged ''1'' ''10'') < p_total (l_pagination d))"
    by (elim exE conjE)
  from listConversations_pagination [OF r2] obtain d2 where
    d2: "r2 = \<lparr>r_status = 200, r_code = 0, r_data = Some d2\<rparr>"
       "p_page (l_pagination d2) = page_of (paged ''2'' ''10'')"
       "p_limit (l_pagination d2) = limit_of (paged ''2'' ''10'')"
       "p_total (l_pagination d2) \<le> 2 ^ 53 \<longrightarrow>
          p_hasMore (l_pagination d2)
            = (page_of (paged ''2'' ''10'') * limit_of (paged ''2'' ''10'') < p_total (l_pagination d2))"
    by (elim exE conjE)
  from r d(1) page1_of_15 have t1: "p_total (l_pagination d) = 15"
    by (simp add: pagination_of_def)
  from r2 d2(1) page2_of_15 have t2: "p_total (l_pagination d2) = 15"
    by (simp add: pagination_of_def)
  from d t1 have "l_pagination d = \<lparr>p_page = 1, p_limit = 10, p_total = 15, p_hasMore = True\<rparr>"
    by (cases "l_pagination d") (simp add: paged_eval)
  moreover from d2 t2
  have "l_pagination d2 = \<lparr>p_page = 2, p_limit = 10, p_total = 15, p_hasMore = False\<rparr>"
    by (cases "l_pagination d2") (simp add: paged_eval)
  moreover have "length (conversations world15) = 15"
    by (simp add: world15_def init_def)
  ultimately show ?thesis
    using r r2 d(1) d2(1) r3 p3 by (simp add: pagination_of_def)
qed

text \<open>
  C7 does not hold of the code for a negative parameter. The page \<open>-1\<close> is not
  replaced by the default 1: the skip \<open>(page - 1) * limit\<close> is \<open>-40\<close>, the query is
  rejected and, the handler having no \<open>try\<close>, no list is returned. The limit \<open>-5\<close> is
  not replaced by the default 20 either, and on page 2 the skip is \<open>-5\<close>, with the same
  outcome. This is so in every store and with every library.
\<close>

theorem listConversations_negative_page:
  "page_of (paged ''-1'' ''20'') = - 1 \<and>
   limit_of (paged ''-1'' ''20'') = 20 \<and>
   listConversations L (paged ''-1'' ''20'') w = Inl MongoServerError \<and>
   page_of (paged ''2'' ''-5'') = 2 \<and>
   limit_of (paged ''2'' ''-5'') = - 5 \<and>
   listConversations L (paged ''2'' ''-5'') w = Inl MongoServerError"
  by (simp add: listConversations_def paged_eval title_regex_def Conversation_find_def
        to_double_def)

text \<open>
  A turn with one existing and one dangling attachment id: the thread lists the user
  message, with the one attachment resolved, before the reply, each with its id, role,
  content and time; an unknown session gives the empty list.
\<close>

theorem getThread_ordered_witness:
  "sendTurn example_library (env_reply (JStr (js ''Hi''))) look world_up
     = (fst (sendTurn example_library (env_reply (JStr (js ''Hi''))) look world_up), world_thread) \<and>
   r_code (fst (sendTurn example_library (env_reply (JStr (js ''Hi''))) look world_up)) = 0 \<and>
   castString (b_sessionId look) = Inr (Some (js ''s1'')) \<and>
   r_status (getThread (js ''3001'') (js ''s1'') world_thread) = 200 \<and>
   map m_attachments (messages world_thread) = [[0, 42], []] \<and>
   map a_id (attachments world_thread) = [0] \<and>
   map_option (map (\<lambda>i. (t_messageId i, t_role i, t_content i, t_createdAt i)))
      (r_data (getThread (js ''3001'') (js ''s1'') world_thread))
     = Some [(1, User, Some (js ''look''), 100), (2, Gemini3, Some (js ''Hi''), 107)] \<and>
   map_option (map (\<lambda>i. map ta_fileId (t_attachments i)))
      (r_data (getThread (js ''3001'') (js ''s1'') world_thread)) = Some [[0], []] \<and>
   map_option (map (\<lambda>i. map ta_url (t_attachments i)))
      (r_data (getThread (js ''3001'') (js ''s1'') world_thread))
     = Some [[js ''http://localhost:3001/uploads/100-a.png''], []] \<and>
   r_data (getThread (js ''3001'') (js ''nobody'') world_thread) = Some []"
proof -
  let ?L = example_library and ?e = "env_reply (JStr (js ''Hi''))"
  have run: "sendTurn ?L ?e look world_up = (fst (sendTurn ?L ?e look world_up), world_thread)"
    by (simp add: world_thread_def)
  have ok: "r_code (fst (sendTurn ?L ?e look world_up)) = 0"
    unfolding look_eval by simp
  have cs: "castString (b_sessionId look) = Inr (Some (js ''s1''))"
    by (simp add: look_def chat_def)
  have later: "messages world_thread = messages world_thread @ []"
    by simp
  from getThread_ordered [of "js ''3001''" "js ''s1''" world_thread]
  obtain S :: "message list" and items where
    g: "getThread (js ''3001'') (js ''s1'') world_thread
       = \<lparr>r_status = 200, r_code = 0, r_data = Some items\<rparr>"
    and "sorted (map m_createdAt S)"
    and turn: "\<forall>L e b w0 r w1 later.
              sendTurn L e b w0 = (r, w1) \<and> r_code r = 0 \<and>
              castString (b_sessionId b) = Inr (Some (js ''s1'')) \<and>
              messages world_thread = messages w1 @ later \<longrightarrow>
              (\<exists>d s c as iu bs ir cs.
                 r_data r = Some d \<and> b_message b = JStr s \<and>
                 castString (d_content d) = Inr c \<and>
                 items = as @ iu # bs @ ir # cs \<and>
                 t_role iu = User \<and> t_content iu = Some (bson_string s) \<and>
                 t_role ir = Gemini3 \<and> t_content ir = map_option bson_string c \<and>
                 t_messageId ir = d_messageId d \<and> t_createdAt ir = d_createdAt d \<and>
                 t_messageId iu \<noteq> t_messageId ir \<and>
                 t_createdAt iu \<le> t_createdAt ir)"
    by (elim exE conjE)
  from g have s: "r_status (getThread (js ''3001'') (js ''s1'') world_thread) = 200"
    by simp
  from turn [rule_format, OF conjI [OF run conjI [OF ok conjI [OF cs later]]]]
  obtain as iu bs ir cs' where "items = as @ iu # bs @ ir # cs'"
    "t_role iu = User" "t_role ir = Gemini3"
    by (elim exE conjE)
  from getThread_ordered [of "js ''3001''" "js ''nobody''" world_thread]
  obtain S' :: "message list" and items' where
    g': "getThread (js ''3001'') (js ''nobody'') world_thread
       = \<lparr>r_status = 200, r_code = 0, r_data = Some items'\<rparr>"
    and "sorted (map m_createdAt S')"
    and e: "(\<forall>m \<in> set (messages world_thread).
               m_sessionId m \<noteq> Some (bson_string (js ''nobody''))) \<longrightarrow> items' = []"
    by (elim exE conjE)
  have "\<forall>m \<in> set (messages world_thread). m_sessionId m \<noteq> Some (bson_string (js ''nobody''))"
    unfolding world_thread_eval by (simp add: js_def is_high_def is_low_def)
  with g' e have n: "r_data (getThread (js ''3001'') (js ''nobody'') world_thread) = Some []"
    by simp
  have "map m_attachments (messages world_thread) = [[0, 42], []]"
    "map a_id (attachments world_thread) = [0]"
    "map_option (map (\<lambda>i. (t_messageId i, t_role i, t_content i, t_createdAt i)))
      (r_data (getThread (js ''3001'') (js ''s1'') world_thread))
     = Some [(1, User, Some (js ''look''), 100), (2, Gemini3, Some (js ''Hi''), 107)]"
    "map_option (map (\<lambda>i. map ta_fileId (t_attachments i)))
      (r_data (getThread (js ''3001'') (js ''s1'') world_thread)) = Some [[0], []]"
    "map_option (map (\<lambda>i. map ta_url (t_attachments i)))
      (r_data (getThread (js ''3001'') (js ''s1'') world_thread))
     = Some [[js ''http://localhost:3001/uploads/100-a.png''], []]"
    unfolding world_thread_eval
    by (simp_all add: getThread_def success_def Message_find_def thread_entry_def populate_def
          List.map_filter_simps file_url_def js_def is_high_def is_low_def)
  with s n run ok cs show ?thesis by simp
qed

text \<open>
  The world after an upload and a turn that refers to the upload: the attachment still
  has no \<open>messageId\<close>.
\<close>

theorem attachments_orphan_witness:
  "reachable example_library world_thread \<and>
   map m_attachments (messages world_thread) = [[0, 42], []] \<and>
   map a_id (attachments world_thread) = [0] \<and>
   map a_messageId (attachments world_thread) = [None]"
proof -
  have r: "reachable example_library world_thread"
    unfolding world_thread_def world_up_def
    by (intro reachable.chat reachable.uploaded reachable.start)
  have a: "map m_attachments (messages world_thread) = [[0, 42], []]"
    "map a_id (attachments world_thread) = [0]"
    unfolding world_thread_eval by simp_all
  from a(2) obtain x where x: "attachments world_thread = [x]"
    by (cases "attachments world_thread") auto
  with attachments_orphan [OF r] have "a_messageId x = None"
    by simp
  with x r a show ?thesis by simp
qed

end
